theory Spec2Isabelle
  imports Main "HOL-Library.Sublist"
begin

section \<open>JavaScript values and strings\<close>

text \<open>
  The values that travel through the replication pipeline: \<open>null\<close>, \<open>undefined\<close>, strings,
  integral numbers and \<open>NaN\<close> (what \<open>parseInt\<close> yields on a text that is no number).
  Strings are lists of characters; the model covers ASCII text, on which the code units of
  JavaScript and the characters of HOL coincide. Non-integral numbers do not occur in the
  catalog lookups and counts the pipeline computes with.
\<close>

datatype jsvalue = JNull | JUndefined | JStr string | JNum int | JNaN

definition digitChar :: "nat \<Rightarrow> char" where
  "digitChar d = ''0123456789'' ! d"

fun natToString :: "nat \<Rightarrow> string" where
  "natToString n =
     (if n < 10 then [digitChar n] else natToString (n div 10) @ [digitChar (n mod 10)])"

declare natToString.simps [simp del]

definition intToString :: "int \<Rightarrow> string" where
  "intToString i = (if i < 0 then CHR ''-'' # natToString (nat (- i)) else natToString (nat i))"

text \<open>\<open>String(v)\<close>, which is also what a template literal \<open>${v}\<close> interpolates.\<close>

fun toString :: "jsvalue \<Rightarrow> string" where
  "toString JNull = ''null''"
| "toString JUndefined = ''undefined''"
| "toString (JStr s) = s"
| "toString (JNum i) = intToString i"
| "toString JNaN = ''NaN''"

text \<open>Truthiness, as \<open>||\<close>, \<open>&&\<close> and \<open>!\<close> test it.\<close>

fun truthy :: "jsvalue \<Rightarrow> bool" where
  "truthy JNull = False"
| "truthy JUndefined = False"
| "truthy (JStr s) = (s \<noteq> [])"
| "truthy (JNum i) = (i \<noteq> 0)"
| "truthy JNaN = False"

text \<open>Strict equality \<open>===\<close> on these values: \<open>NaN\<close> equals nothing, itself included.\<close>

definition strictEq :: "jsvalue \<Rightarrow> jsvalue \<Rightarrow> bool" where
  "strictEq a b = (a = b \<and> a \<noteq> JNaN)"

definition isWhiteSpace :: "char \<Rightarrow> bool" where
  "isWhiteSpace c = (c \<in> set [CHR 0x09, CHR 0x0A, CHR 0x0B, CHR 0x0C, CHR 0x0D, CHR 0x20])"

text \<open>\<open>String.prototype.trim\<close>.\<close>

definition trim :: "string \<Rightarrow> string" where
  "trim s = rev (dropWhile isWhiteSpace (rev (dropWhile isWhiteSpace s)))"

definition lowerLetters :: string where
  "lowerLetters = ''abcdefghijklmnopqrstuvwxyz''"

definition upperLetters :: string where
  "upperLetters = ''ABCDEFGHIJKLMNOPQRSTUVWXYZ''"

definition toUpperChar :: "char \<Rightarrow> char" where
  "toUpperChar c = (case map_of (zip lowerLetters upperLetters) c of Some u \<Rightarrow> u | None \<Rightarrow> c)"

text \<open>\<open>String.prototype.toUpperCase\<close>.\<close>

definition toUpperCase :: "string \<Rightarrow> string" where
  "toUpperCase s = map toUpperChar s"

text \<open>\<open>haystack.includes(needle)\<close>.\<close>

fun strIncludes :: "string \<Rightarrow> string \<Rightarrow> bool" where
  "strIncludes [] needle = (needle = [])"
| "strIncludes (c # cs) needle = (prefix needle (c # cs) \<or> strIncludes cs needle)"

text \<open>\<open>haystack.indexOf(needle)\<close>, with \<open>None\<close> for \<open>-1\<close>.\<close>

fun indexOfFrom :: "nat \<Rightarrow> string \<Rightarrow> string \<Rightarrow> nat option" where
  "indexOfFrom i [] needle = (if needle = [] then Some i else None)"
| "indexOfFrom i (c # cs) needle =
     (if prefix needle (c # cs) then Some i else indexOfFrom (Suc i) cs needle)"

definition indexOf :: "string \<Rightarrow> string \<Rightarrow> nat option" where
  "indexOf haystack needle = indexOfFrom 0 haystack needle"

text \<open>
  \<open>s.replace(/needle/g, repl)\<close> for a pattern that is a literal, non-empty text: every
  occurrence, left to right, without overlaps.
\<close>

fun replaceAll :: "string \<Rightarrow> string \<Rightarrow> string \<Rightarrow> string" where
  "replaceAll needle repl [] = []"
| "replaceAll needle repl (c # cs) =
     (if needle \<noteq> [] \<and> prefix needle (c # cs)
      then repl @ replaceAll needle repl (drop (length needle) (c # cs))
      else c # replaceAll needle repl cs)"

definition quoteChar :: char where
  "quoteChar = CHR 0x27"

section \<open>Type Translator (utils.js)\<close>

text \<open>
  \<open>mapDb2ToPostgresType(db2Type, length)\<close>: the lookup table, with \<open>TEXT\<close> for a type name
  that is not in it. The \<open>DECIMAL\<close> entry interpolates the length. The table is an object
  literal, so the members it inherits (\<open>constructor\<close>, \<open>toString\<close>, ...) would be found too;
  no type name of the source catalog is spelled like one of them, and the model leaves them
  out.
\<close>

definition typeMapping :: "jsvalue \<Rightarrow> (string \<times> string) list" where
  "typeMapping len =
     [(''INTEGER'', ''INTEGER''),
      (''SMALLINT'', ''SMALLINT''),
      (''BIGINT'', ''BIGINT''),
      (''DECIMAL'', ''DECIMAL('' @ toString len @ '',2)''),
      (''DOUBLE'', ''DOUBLE PRECISION''),
      (''REAL'', ''REAL''),
      (''CHAR'', ''TEXT''),
      (''VARCHAR'', ''TEXT''),
      (''CLOB'', ''TEXT''),
      (''DATE'', ''DATE''),
      (''TIMESTAMP'', ''TIMESTAMP'')]"

definition mapDb2ToPostgresType :: "jsvalue \<Rightarrow> jsvalue \<Rightarrow> string" where
  "mapDb2ToPostgresType db2Type len =
     (case map_of (typeMapping len) (toString db2Type) of
        Some t \<Rightarrow> t
      | None \<Rightarrow> ''TEXT'')"

text \<open>
  \<open>formatValue(value, type)\<close>. The result is a string, except in the numeric branch, which
  hands the value back as it came.
\<close>

definition formatValue :: "jsvalue \<Rightarrow> string \<Rightarrow> jsvalue" where
  "formatValue val ty =
     (if val = JNull \<or> val = JStr [] then JStr ''NULL''
      else if strIncludes ty ''TEXT'' \<or> strIncludes ty ''CHAR''
        then JStr ([quoteChar]
                   @ replaceAll [quoteChar] [quoteChar, quoteChar] (trim (toString val))
                   @ [quoteChar])
      else if strIncludes ty ''TIMESTAMP'' \<or> strIncludes ty ''DATE''
        then JStr ([quoteChar] @ toString val @ [quoteChar])
      else if strIncludes ty ''INTEGER'' \<or> strIncludes ty ''SMALLINT'' \<or> strIncludes ty ''BIGINT''
              \<or> strIncludes ty ''DECIMAL'' \<or> strIncludes ty ''NUMERIC'' \<or> strIncludes ty ''DOUBLE''
              \<or> strIncludes ty ''REAL''
        then val
      else JStr ([quoteChar] @ toString val @ [quoteChar]))"

text \<open>
  \<open>chunkArray(array, size)\<close>: the \<open>for\<close> loop over \<open>i\<close>, which does not end when \<open>size\<close> is
  \<open>0\<close> and the array is not empty; not returning is the value \<open>None\<close>.
\<close>

partial_function (option) chunkLoop ::
  "'a list \<Rightarrow> nat \<Rightarrow> nat \<Rightarrow> 'a list list \<Rightarrow> 'a list list option" where
  "chunkLoop array sz i chunkedArr =
     (if i < length array
      then chunkLoop array sz (i + sz) (chunkedArr @ [take sz (drop i array)])
      else Some chunkedArr)"

definition chunkArray :: "'a list \<Rightarrow> nat \<Rightarrow> 'a list list option" where
  "chunkArray array sz = chunkLoop array sz 0 []"

section \<open>The two databases and the console\<close>

text \<open>
  A row is an object: its identity (what \<open>indexOf\<close> compares) and its properties. Reading a
  property that is not there gives \<open>undefined\<close>.
\<close>

type_synonym row = "nat \<times> (string \<times> jsvalue) list"

definition getProp :: "row \<Rightarrow> string \<Rightarrow> jsvalue" where
  "getProp r k = (case map_of (snd r) k of Some v \<Rightarrow> v | None \<Rightarrow> JUndefined)"

datatype error = DbError string | TypeError string | ReferenceError string

fun message :: "error \<Rightarrow> string" where
  "message (DbError m) = m"
| "message (TypeError m) = m"
| "message (ReferenceError m) = m"

text \<open>
  A statement is kept as the template the source writes and the values it interpolates:
  \<^item> \<open>SelectColumns s t\<close>:
    \<^verbatim>\<open>SELECT COLNAME, TYPENAME, LENGTH FROM SYSCAT.COLUMNS WHERE TABSCHEMA = ? AND TABNAME = ?\<close>
    with the parameters \<open>[s, t]\<close>;
  \<^item> \<open>SelectKeyColumns s t\<close>:
    \<^verbatim>\<open>SELECT COLNAME FROM SYSCAT.KEYCOLUSE WHERE TABSCHEMA = ? AND TABNAME = ? ORDER BY COLSEQ\<close>
    with the parameters \<open>[s, t]\<close>;
  \<^item> \<open>SelectPage s t keys offset chunkSize\<close>:
    \<^verbatim>\<open>SELECT * FROM s.t ORDER BY "k1" ASC, ... OFFSET offset ROWS FETCH FIRST chunkSize ROWS ONLY\<close>,
    without the \<open>ORDER BY\<close> clause when \<open>keys\<close> is empty;
  \<^item> \<open>SelectCountDb2 s t\<close>: \<^verbatim>\<open>SELECT COUNT(*) AS COUNT FROM s.t\<close>;
  \<^item> \<open>SelectViewText s v\<close>:
    \<^verbatim>\<open>SELECT TEXT FROM SYSCAT.VIEWS WHERE VIEWSCHEMA = 's' AND VIEWNAME = 'v'\<close>.
\<close>

datatype db2stmt =
    SelectColumns string string
  | SelectKeyColumns string string
  | SelectPage string string "string list" nat nat
  | SelectCountDb2 string string
  | SelectViewText string string

text \<open>
  \<^item> \<open>DropSchema s\<close>: \<^verbatim>\<open>DROP SCHEMA IF EXISTS "s" CASCADE\<close>;
  \<^item> \<open>CreateSchema s\<close>: \<^verbatim>\<open>CREATE SCHEMA IF NOT EXISTS "s"\<close>;
  \<^item> \<open>CreateTable s t defs\<close>: \<^verbatim>\<open>CREATE TABLE IF NOT EXISTS "s"."t" ("name" type, ...)\<close>;
  \<^item> \<open>Insert s t names placeholders values\<close>:
    \<^verbatim>\<open>INSERT INTO "s"."t" ("name",...) VALUES ($i,...),...\<close>, one group of placeholder numbers for
    each row, with the bound \<open>values\<close>;
  \<^item> \<open>CreateView s v text\<close>: \<^verbatim>\<open>CREATE OR REPLACE VIEW "s"."v" AS text\<close>;
  \<^item> \<open>SelectCountPg s t\<close>: \<^verbatim>\<open>SELECT COUNT(*) FROM "s"."t"\<close>;
  \<^item> \<open>Truncate s t\<close>: \<^verbatim>\<open>TRUNCATE TABLE "s"."t"\<close>.
\<close>

datatype pgstmt =
    DropSchema string
  | CreateSchema string
  | CreateTable string string "(string \<times> string) list"
  | Insert string string "string list" "int list list" "jsvalue list"
  | CreateView string string string
  | SelectCountPg string string
  | Truncate string string

datatype pgresult = PgResult (rows: "row list") (rowCount: nat)

text \<open>
  What the process prints: the channel, the fixed words of the line (without its emoji and
  colour) and the values interpolated in it, in order.
\<close>

datatype channel =
    ConsoleLog | ConsoleWarn | ConsoleError
  | SpinnerStart | SpinnerText | SpinnerFail | SpinnerSucceed

datatype arg = Text string | Db2Stmt db2stmt | PgStmt pgstmt | ErrorObject error

datatype event =
    Db2Query db2stmt "error + row list"
  | PgQuery pgstmt "error + pgresult"
  | Report channel string "arg list"

text \<open>
  The world outside the process: whether the source connection opens, and what each
  database answers to a statement. The answer may depend on everything that happened
  before, so every deterministic behaviour of the two databases is an environment.
\<close>

record env =
  db2Open :: "error option"
  db2Respond :: "event list \<Rightarrow> db2stmt \<Rightarrow> error + row list"
  pgRespond :: "event list \<Rightarrow> pgstmt \<Rightarrow> error + pgresult"

definition db2Query :: "env \<Rightarrow> db2stmt \<Rightarrow> event list \<Rightarrow> (error + row list) \<times> event list" where
  "db2Query e q tr = (let r = db2Respond e tr q in (r, tr @ [Db2Query q r]))"

definition pgQuery :: "env \<Rightarrow> pgstmt \<Rightarrow> event list \<Rightarrow> (error + pgresult) \<times> event list" where
  "pgQuery e q tr = (let r = pgRespond e tr q in (r, tr @ [PgQuery q r]))"

text \<open>A sequence mapped by a function that may throw: the first throw ends it.\<close>

fun mapResult :: "('a \<Rightarrow> error + 'b) \<Rightarrow> 'a list \<Rightarrow> error + 'b list" where
  "mapResult f [] = Inr []"
| "mapResult f (x # xs) =
     (case f x of
        Inl err \<Rightarrow> Inl err
      | Inr y \<Rightarrow> (case mapResult f xs of Inl err \<Rightarrow> Inl err | Inr ys \<Rightarrow> Inr (y # ys)))"

text \<open>\<open>v.trim()\<close> on a value of the driver: a \<open>TypeError\<close> on everything but a string.\<close>

fun trimValue :: "string \<Rightarrow> jsvalue \<Rightarrow> error + string" where
  "trimValue what (JStr s) = Inr (trim s)"
| "trimValue what JNull =
     Inl (TypeError (''Cannot read properties of null (reading '' @ [quoteChar] @ ''trim''
                     @ [quoteChar] @ '')''))"
| "trimValue what JUndefined =
     Inl (TypeError (''Cannot read properties of undefined (reading '' @ [quoteChar] @ ''trim''
                     @ [quoteChar] @ '')''))"
| "trimValue what v = Inl (TypeError (what @ ''.trim is not a function''))"

definition isDigit :: "char \<Rightarrow> bool" where
  "isDigit c = (c \<in> set ''0123456789'')"

definition digitVal :: "char \<Rightarrow> nat" where
  "digitVal c =
     (case map_of (zip ''0123456789'' [0, 1, 2, 3, 4, 5, 6, 7, 8, 9]) c of
        Some d \<Rightarrow> d
      | None \<Rightarrow> 0)"

definition parseDigits :: "string \<Rightarrow> nat" where
  "parseDigits ds = foldl (\<lambda>acc c. 10 * acc + digitVal c) 0 ds"

text \<open>
  \<open>parseInt(v, 10)\<close>: the text of the value, leading white space skipped, a sign, then the
  longest run of digits; \<open>NaN\<close> when there is no digit.
\<close>

definition parseInt :: "jsvalue \<Rightarrow> jsvalue" where
  "parseInt v =
     (let s = dropWhile isWhiteSpace (toString v);
          neg = (s \<noteq> [] \<and> hd s = CHR ''-'');
          body = (if s \<noteq> [] \<and> (hd s = CHR ''-'' \<or> hd s = CHR ''+'') then tl s else s);
          ds = takeWhile isDigit body
      in if ds = [] then JNaN
         else JNum (if neg then - int (parseDigits ds) else int (parseDigits ds)))"

text \<open>\<open>v > 0\<close> on a count.\<close>

fun greaterThanZero :: "jsvalue \<Rightarrow> bool" where
  "greaterThanZero (JNum i) = (0 < i)"
| "greaterThanZero v = False"

section \<open>Source Accessor (db2.js)\<close>

text \<open>
  \<open>connectDB2()\<close>. The connection string is built from the configuration and is always a
  non-empty string, so what decides is whether the driver opens the connection.
\<close>

definition connectDB2 :: "env \<Rightarrow> event list \<Rightarrow> (error + unit) \<times> event list" where
  "connectDB2 e tr =
     (let tr1 = tr @ [Report ConsoleLog ''Connecting to DB2'' []]
      in case db2Open e of
           Some err \<Rightarrow>
             (Inl err, tr1 @ [Report ConsoleError ''DB2 Connection Error'' [Text (message err)]])
         | None \<Rightarrow> (Inr (), tr1 @ [Report ConsoleLog ''Connected to DB2'' []]))"

record column =
  cname :: string
  ctype :: string

definition columnOfRow :: "row \<Rightarrow> error + column" where
  "columnOfRow col =
     (case trimValue ''col.COLNAME'' (getProp col ''COLNAME'') of
        Inl err \<Rightarrow> Inl err
      | Inr n \<Rightarrow>
          Inr \<lparr>cname = n,
               ctype = mapDb2ToPostgresType (getProp col ''TYPENAME'') (getProp col ''LENGTH'')\<rparr>)"

definition getColumnMetadata ::
  "env \<Rightarrow> string \<Rightarrow> string \<Rightarrow> event list \<Rightarrow> column list \<times> event list" where
  "getColumnMetadata e schema table tr =
     (case db2Query e (SelectColumns (toUpperCase schema) (toUpperCase table)) tr of
        (answer, tr1) \<Rightarrow>
          (case (case answer of Inl err \<Rightarrow> Inl err | Inr result \<Rightarrow> mapResult columnOfRow result) of
             Inr columns \<Rightarrow> (columns, tr1)
           | Inl err \<Rightarrow>
               ([], tr1 @ [Report ConsoleError ''Failed to fetch column metadata for''
                             [Text schema, Text table, Text (message err)]])))"

definition getPrimaryKeys ::
  "env \<Rightarrow> string \<Rightarrow> string \<Rightarrow> event list \<Rightarrow> string list \<times> event list" where
  "getPrimaryKeys e schema table tr =
     (case db2Query e (SelectKeyColumns (toUpperCase schema) (toUpperCase table)) tr of
        (answer, tr1) \<Rightarrow>
          (case (case answer of
                   Inl err \<Rightarrow> Inl err
                 | Inr result \<Rightarrow>
                     mapResult (\<lambda>r. trimValue ''row.COLNAME'' (getProp r ''COLNAME'')) result) of
             Inr keys \<Rightarrow> (keys, tr1)
           | Inl err \<Rightarrow>
               ([], tr1 @ [Report ConsoleError ''Failed to fetch primary keys for''
                             [Text schema, Text table, Text (message err)]])))"

text \<open>
  \<open>fetchChunk(db2, schema, table, columns, chunkSize, offset)\<close>: the key lookup, then the page
  query; a failed page query is reported and becomes the empty chunk.
\<close>

definition fetchChunk ::
  "env \<Rightarrow> string \<Rightarrow> string \<Rightarrow> column list \<Rightarrow> nat \<Rightarrow> nat \<Rightarrow> event list \<Rightarrow> row list \<times> event list"
  where
  "fetchChunk e schema table columns chunkSize offset tr =
     (case getPrimaryKeys e (toUpperCase schema) (toUpperCase table) tr of
        (primaryKeys, tr1) \<Rightarrow>
          (let query = SelectPage schema table primaryKeys offset chunkSize
           in case db2Query e query tr1 of
                (Inr res, tr2) \<Rightarrow> (res, tr2)
              | (Inl err, tr2) \<Rightarrow>
                  ([], tr2 @ [Report ConsoleError ''Error fetching chunk for''
                                [Text schema, Text table, Text (message err)],
                              Report ConsoleError ''Query'' [Db2Stmt query],
                              Report ConsoleError ''Unexpected error fetching chunk for''
                                [Text schema, Text table, Text (message err)]])))"

definition getDb2RowCount ::
  "env \<Rightarrow> string \<Rightarrow> string \<Rightarrow> event list \<Rightarrow> jsvalue \<times> event list" where
  "getDb2RowCount e schema table tr =
     (case db2Query e (SelectCountDb2 (toUpperCase schema) (toUpperCase table)) tr of
        (Inr result, tr1) \<Rightarrow>
          (if result \<noteq> [] \<and> truthy (getProp (hd result) ''COUNT'')
           then (parseInt (getProp (hd result) ''COUNT''), tr1)
           else (JNum 0, tr1))
      | (Inl err, tr1) \<Rightarrow>
          (JNum 0, tr1 @ [Report ConsoleError ''Error getting exact row count for''
                            [Text schema, Text table, Text (message err)]]))"

text \<open>
  The text work of \<open>getViewDefinition\<close>: what follows the first \<open>AS\<close> of the upper-cased
  text, trimmed, with the one known table reference quoted.
\<close>

definition selectStatement :: "string \<Rightarrow> string" where
  "selectStatement viewDefinition =
     (case indexOf (toUpperCase viewDefinition) ''AS'' of
        Some asIndex \<Rightarrow>
          replaceAll ''EDM_COMP.LOCN_COMPANY_XREF''
            ([CHR 0x22] @ ''EDM_COMP'' @ [CHR 0x22] @ ''.'' @ [CHR 0x22] @ ''LOCN_COMPANY_XREF''
             @ [CHR 0x22])
            (trim (drop (asIndex + 2) viewDefinition))
      | None \<Rightarrow> [])"

definition getViewDefinition ::
  "env \<Rightarrow> string \<Rightarrow> string \<Rightarrow> event list \<Rightarrow> string \<times> event list" where
  "getViewDefinition e schema viewName tr =
     (let query = SelectViewText schema viewName;
          tr1 = tr @ [Report ConsoleLog ''DB2 getViewDefinition Query'' [Db2Stmt query]]
      in case db2Query e query tr1 of
           (Inr result, tr2) \<Rightarrow>
             (if result \<noteq> [] \<and> truthy (getProp (hd result) ''TEXT'')
              then (case getProp (hd result) ''TEXT'' of
                      JStr viewDefinition \<Rightarrow> (selectStatement viewDefinition, tr2)
                    | v \<Rightarrow>
                        ([], tr2 @ [Report ConsoleError ''Error getting view definition for''
                                      [Text schema, Text viewName,
                                       Text ''viewDefinition.toUpperCase is not a function'']]))
              else ([], tr2))
         | (Inl err, tr2) \<Rightarrow>
             ([], tr2 @ [Report ConsoleError ''Error getting view definition for''
                           [Text schema, Text viewName, Text (message err)]]))"

section \<open>Destination Accessor (postgres.js)\<close>

definition dropSchema :: "env \<Rightarrow> string \<Rightarrow> event list \<Rightarrow> (error + unit) \<times> event list" where
  "dropSchema e schema tr =
     (case pgQuery e (DropSchema schema) tr of
        (Inr result, tr1) \<Rightarrow> (Inr (), tr1 @ [Report ConsoleLog ''Schema dropped'' [Text schema]])
      | (Inl err, tr1) \<Rightarrow>
          (Inl err, tr1 @ [Report ConsoleError ''Failed to drop schema''
                             [Text schema, Text (message err)]]))"

definition ensureSchemaExists ::
  "env \<Rightarrow> string \<Rightarrow> event list \<Rightarrow> (error + unit) \<times> event list" where
  "ensureSchemaExists e schema tr =
     (case pgQuery e (CreateSchema schema) tr of
        (Inr result, tr1) \<Rightarrow> (Inr (), tr1 @ [Report ConsoleLog ''Schema ensured'' [Text schema]])
      | (Inl err, tr1) \<Rightarrow>
          (Inl err, tr1 @ [Report ConsoleError ''Failed to ensure schema''
                             [Text schema, Text (message err)]]))"

definition ensureTableExists ::
  "env \<Rightarrow> string \<Rightarrow> string \<Rightarrow> column list \<Rightarrow> string list \<Rightarrow> event list
     \<Rightarrow> (error + unit) \<times> event list" where
  "ensureTableExists e schema table columns primaryKeys tr =
     (let columnDefinitions = map (\<lambda>col. (cname col, ctype col)) columns
      in case pgQuery e (CreateTable schema table columnDefinitions) tr of
           (Inr result, tr1) \<Rightarrow>
             (Inr (), tr1 @ [Report ConsoleLog ''Table ensured'' [Text schema, Text table]])
         | (Inl err, tr1) \<Rightarrow>
             (Inl err, tr1 @ [Report ConsoleError ''Failed to ensure table''
                                [Text schema, Text table, Text (message err)]]))"

definition batchSize :: nat where
  "batchSize = 1000"

text \<open>\<open>batch.indexOf(row)\<close>: the first position that holds this very object, or \<open>-1\<close>.\<close>

fun indexOfRow :: "row list \<Rightarrow> row \<Rightarrow> int" where
  "indexOfRow [] r = - 1"
| "indexOfRow (x # xs) r =
     (if fst x = fst r then 0
      else (let k = indexOfRow xs r in if k < 0 then - 1 else k + 1))"

definition valuePlaceholders :: "column list \<Rightarrow> row list \<Rightarrow> int list list" where
  "valuePlaceholders columns batch =
     map (\<lambda>r. map (\<lambda>index. int index + 1 + int (length columns) * indexOfRow batch r)
                 [0..<length columns])
         batch"

definition flatValues :: "column list \<Rightarrow> row list \<Rightarrow> jsvalue list" where
  "flatValues columns batch = concat (map (\<lambda>r. map (\<lambda>col. getProp r (cname col)) columns) batch)"

text \<open>
  The \<open>for\<close> loop of \<open>insertIntoPostgres\<close> over the sub-batches. The query of a sub-batch
  is \<open>pgQuery\<close> written out: the answer of the destination, and the event in the trace.
\<close>

function insertLoop ::
  "env \<Rightarrow> string \<Rightarrow> string \<Rightarrow> column list \<Rightarrow> row list \<Rightarrow> nat \<Rightarrow> nat \<Rightarrow> event list
     \<Rightarrow> (error + nat) \<times> event list" where
  "insertLoop e schema table columns chunk i totalInserted tr =
     (if i < length chunk
      then (let batch = take batchSize (drop i chunk);
                columnNames = map cname columns;
                vals = flatValues columns batch;
                query = Insert schema table columnNames (valuePlaceholders columns batch) vals
            in if length vals = 0
               then insertLoop e schema table columns chunk (i + batchSize) totalInserted
                      (tr @ [Report ConsoleWarn ''Skipping insert as values array is empty''
                               [Text schema, Text table]])
               else if length vals \<noteq> length columns * length batch
               then insertLoop e schema table columns chunk (i + batchSize) totalInserted
                      (tr @ [Report ConsoleError
                               ''Error inserting data: values length does not match expected length''
                               [Text schema, Text table],
                             Report ConsoleError ''Failing Query'' [PgStmt query],
                             Report ConsoleError ''values length, expected length''
                               [Text (natToString (length vals)),
                                Text (natToString (length columns * length batch))]])
               else (case pgRespond e tr query of
                       Inr result \<Rightarrow>
                         insertLoop e schema table columns chunk (i + batchSize)
                           (totalInserted + rowCount result) (tr @ [PgQuery query (Inr result)])
                     | Inl err \<Rightarrow>
                         (Inl err,
                          tr @ [PgQuery query (Inl err),
                                Report ConsoleError ''Error inserting batch into''
                                  [Text schema, Text table, Text (message err)],
                                Report ConsoleError ''Failing Query'' [PgStmt query]])))
      else (Inr totalInserted, tr))"
  by pat_completeness auto
termination
  by (relation "measure (\<lambda>(e, schema, table, columns, chunk, i, totalInserted, tr). length chunk - i)")
     (auto simp: batchSize_def)

declare insertLoop.simps [simp del]

definition insertIntoPostgres ::
  "env \<Rightarrow> string \<Rightarrow> string \<Rightarrow> column list \<Rightarrow> row list \<Rightarrow> event list
     \<Rightarrow> (error + nat) \<times> event list" where
  "insertIntoPostgres e schema table columns chunk tr =
     (if length chunk = 0
      then (Inr 0, tr @ [Report ConsoleWarn ''Skipping empty chunk for'' [Text schema, Text table]])
      else insertLoop e schema table columns chunk 0 0 tr)"

text \<open>\<open>s.replace(/WITH UR/i, '')\<close>: the first occurrence, whatever its case, is cut out.\<close>

definition removeWithUr :: "string \<Rightarrow> string" where
  "removeWithUr s =
     (case indexOf (toUpperCase s) ''WITH UR'' of
        Some k \<Rightarrow> take k s @ drop (k + length ''WITH UR'') s
      | None \<Rightarrow> s)"

text \<open>
  The names bound where the handler of \<open>createView\<close> runs: its own parameter, the
  parameters of the function, and the bindings of the module. The constant \<open>query\<close> lives
  in the block of the \<open>try\<close> and is not among them.
\<close>

definition createViewCatchScope :: "string list" where
  "createViewCatchScope =
     [''error'',
      ''pgClient'', ''schema'', ''viewName'', ''viewDefinition'',
      ''pkg'', ''config'', ''chalk'', ''Client'', ''dropSchema'', ''ensureSchemaExists'',
      ''ensureTableExists'', ''getLastPrimaryKey'', ''insertIntoPostgres'', ''createView'',
      ''getPostgresRowCount'', ''truncateTable'', ''console'']"

definition createView ::
  "env \<Rightarrow> string \<Rightarrow> string \<Rightarrow> string \<Rightarrow> event list \<Rightarrow> (error + unit) \<times> event list" where
  "createView e schema viewName viewDefinition tr =
     (let postgresViewDefinition = removeWithUr viewDefinition;
          query = CreateView schema viewName postgresViewDefinition;
          tr1 = tr @ [Report ConsoleLog ''Composed Query'' [PgStmt query]]
      in case pgQuery e query tr1 of
           (Inr result, tr2) \<Rightarrow>
             (Inr (), tr2 @ [Report ConsoleLog ''View created'' [Text schema, Text viewName]])
         | (Inl err, tr2) \<Rightarrow>
             (let tr3 = tr2 @ [Report ConsoleError ''Failed to create view''
                                 [Text schema, Text viewName, Text (message err)]]
              in if ''query'' \<in> set createViewCatchScope
                 then (Inl err, tr3 @ [Report ConsoleError ''Failing Query'' [PgStmt query]])
                 else (Inl (ReferenceError ''query is not defined''), tr3)))"

definition getPostgresRowCount ::
  "env \<Rightarrow> string \<Rightarrow> string \<Rightarrow> event list \<Rightarrow> jsvalue \<times> event list" where
  "getPostgresRowCount e schema table tr =
     (case pgQuery e (SelectCountPg schema table) tr of
        (Inr result, tr1) \<Rightarrow>
          (case rows result of
             r # rest \<Rightarrow> (parseInt (getProp r ''count''), tr1)
           | [] \<Rightarrow>
               (JNum (- 1),
                tr1 @ [Report ConsoleError ''Failed to get row count for''
                         [Text schema, Text table,
                          Text (''Cannot read properties of undefined (reading '' @ [quoteChar]
                                @ ''count'' @ [quoteChar] @ '')'')]]))
      | (Inl err, tr1) \<Rightarrow>
          (JNum (- 1),
           tr1 @ [Report ConsoleError ''Failed to get row count for''
                    [Text schema, Text table, Text (message err)]]))"

definition truncateTable ::
  "env \<Rightarrow> string \<Rightarrow> string \<Rightarrow> event list \<Rightarrow> (error + unit) \<times> event list" where
  "truncateTable e schema table tr =
     (case pgQuery e (Truncate schema table) tr of
        (Inr result, tr1) \<Rightarrow>
          (Inr (), tr1 @ [Report ConsoleLog ''Table truncated'' [Text schema, Text table]])
      | (Inl err, tr1) \<Rightarrow>
          (Inl err, tr1 @ [Report ConsoleError ''Failed to truncate table''
                             [Text schema, Text table, Text (message err)]]))"

section \<open>Replication Orchestrator (replicate.js, config.js)\<close>

text \<open>
  The part of the configuration the orchestrator reads. A target is a pair of a schema and
  a table (or view) name.
\<close>

record config =
  tables :: "(string \<times> string) list"
  views :: "(string \<times> string) list"
  chunkSize :: nat
  reset :: bool

text \<open>
  The \<open>while (hasMoreData)\<close> loop of \<open>replicateTable\<close>, with its \<open>try\<close> and \<open>catch\<close>. It
  returns \<open>totalFetched\<close>. A source that never answers with an empty chunk keeps it running
  for ever: not returning is the value \<open>None\<close>.
\<close>

partial_function (option) transferLoop ::
  "env \<Rightarrow> string \<Rightarrow> string \<Rightarrow> column list \<Rightarrow> nat \<Rightarrow> jsvalue \<Rightarrow> nat \<Rightarrow> nat \<Rightarrow> event list
     \<Rightarrow> (nat \<times> event list) option" where
  "transferLoop e schema table columns chunkSz db2Count offset totalFetched tr =
     (case fetchChunk e (toUpperCase schema) (toUpperCase table) columns chunkSz offset tr of
        (chunk, tr1) \<Rightarrow>
          if length chunk = 0 then Some (totalFetched, tr1)
          else (case insertIntoPostgres e schema table columns chunk tr1 of
                  (Inr insertedCount, tr2) \<Rightarrow>
                    transferLoop e schema table columns chunkSz db2Count (offset + chunkSz)
                      (totalFetched + length chunk)
                      (tr2 @ [if greaterThanZero db2Count
                              then Report SpinnerText ''Fetched & inserted records (percent)''
                                     [Text (natToString (totalFetched + length chunk)),
                                      Text (toString db2Count)]
                              else Report SpinnerText ''Fetched & inserted records (total unknown)''
                                     [Text (natToString (totalFetched + length chunk))]])
                | (Inl err, tr2) \<Rightarrow>
                    Some (totalFetched + length chunk,
                          tr2 @ [Report SpinnerFail ''Error processing''
                                   [Text schema, Text table, Text (message err)],
                                 Report ConsoleError [] [ErrorObject err]])))"

declare transferLoop.simps [code]

definition replicateTable ::
  "env \<Rightarrow> config \<Rightarrow> string \<Rightarrow> string \<Rightarrow> event list \<Rightarrow> ((error + unit) \<times> event list) option"
  where
  "replicateTable e cfg schema table tr =
     (let db2Schema = toUpperCase schema;
          db2Table = toUpperCase table;
          tr0 = tr @ [Report ConsoleLog ''Replicating table'' [Text schema, Text table]]
      in case getColumnMetadata e db2Schema db2Table tr0 of (columns, tr1) \<Rightarrow>
        (case getPrimaryKeys e db2Schema db2Table tr1 of (primaryKeys, tr2) \<Rightarrow>
          (if length columns = 0
           then Some (Inr (), tr2 @ [Report ConsoleLog ''Skipping (no columns found)''
                                       [Text schema, Text table]])
           else
             (case ensureTableExists e schema table columns primaryKeys tr2 of
                (Inl err, tr3) \<Rightarrow> Some (Inl err, tr3)
              | (Inr u, tr3) \<Rightarrow>
                (case getDb2RowCount e db2Schema db2Table tr3 of (db2Count, tr4) \<Rightarrow>
                  (let tr5 = tr4 @ [if greaterThanZero db2Count
                                    then Report ConsoleLog ''Total rows for''
                                           [Text schema, Text table, Text (toString db2Count)]
                                    else Report ConsoleLog ''Could not determine total rows for''
                                           [Text schema, Text table]];
                       transfer = (\<lambda>tr8.
                         (case transferLoop e schema table columns (chunkSize cfg) db2Count 0 0
                                 (tr8 @ [Report SpinnerStart ''Fetching data in chunks''
                                           [Text schema, Text table]]) of
                            None \<Rightarrow> None
                          | Some (totalFetched, tr9) \<Rightarrow>
                              Some (Inr (), tr9 @ [Report SpinnerSucceed ''Finished replicating''
                                                     [Text schema, Text table,
                                                      Text (natToString totalFetched)]])))
                   in if \<not> reset cfg
                      then (case getPostgresRowCount e schema table tr5 of (postgresCount, tr6) \<Rightarrow>
                              (if strictEq postgresCount db2Count
                               then Some (Inr (), tr6 @ [Report ConsoleLog
                                                           ''Skipping (record counts match)''
                                                           [Text schema, Text table]])
                               else (case truncateTable e schema table
                                            (tr6 @ [Report ConsoleLog
                                                      ''Record counts differ. Truncating table.''
                                                      [Text schema, Text table]]) of
                                       (Inl err, tr7) \<Rightarrow> Some (Inl err, tr7)
                                     | (Inr u, tr7) \<Rightarrow> transfer tr7)))
                      else transfer tr5))))))"

text \<open>
  \<open>replicateView\<close>: everything in one \<open>try\<close>, whose handler reports the failure and returns.
\<close>

definition replicateView ::
  "env \<Rightarrow> string \<Rightarrow> string \<Rightarrow> event list \<Rightarrow> event list" where
  "replicateView e schema viewName tr =
     (let tr0 = tr @ [Report ConsoleLog ''Creating view'' [Text schema, Text viewName]]
      in case getViewDefinition e (toUpperCase schema) (toUpperCase viewName) tr0 of
           (viewDefinition, tr1) \<Rightarrow>
             (case createView e schema viewName viewDefinition tr1 of
                (Inr u, tr2) \<Rightarrow>
                  tr2 @ [Report ConsoleLog ''View created'' [Text schema, Text viewName]]
              | (Inl err, tr2) \<Rightarrow>
                  tr2 @ [Report ConsoleError ''Failed to create view for''
                           [Text schema, Text viewName, Text (message err)]]))"

text \<open>
  \<open>[...new Set(list)]\<close>: the members in the order of their first occurrence.
\<close>

definition uniqueOf :: "'a list \<Rightarrow> 'a list" where
  "uniqueOf xs = foldl (\<lambda>acc x. if x \<in> set acc then acc else acc @ [x]) [] xs"

definition uniqueSchemas :: "config \<Rightarrow> string list" where
  "uniqueSchemas cfg = uniqueOf (map fst (tables cfg @ views cfg))"

text \<open>The four \<open>for\<close> loops of \<open>replicateAll\<close>. A loop ends at the first exception.\<close>

fun dropSchemas :: "env \<Rightarrow> string list \<Rightarrow> event list \<Rightarrow> (error + unit) \<times> event list" where
  "dropSchemas e [] tr = (Inr (), tr)"
| "dropSchemas e (schema # rest) tr =
     (case dropSchema e schema
             (tr @ [Report ConsoleLog ''Dropping schema (RESET enabled)'' [Text schema]]) of
        (Inl err, tr1) \<Rightarrow> (Inl err, tr1)
      | (Inr u, tr1) \<Rightarrow> dropSchemas e rest tr1)"

fun ensureSchemas :: "env \<Rightarrow> string list \<Rightarrow> event list \<Rightarrow> (error + unit) \<times> event list" where
  "ensureSchemas e [] tr = (Inr (), tr)"
| "ensureSchemas e (schema # rest) tr =
     (case ensureSchemaExists e schema tr of
        (Inl err, tr1) \<Rightarrow> (Inl err, tr1)
      | (Inr u, tr1) \<Rightarrow> ensureSchemas e rest tr1)"

fun replicateTables ::
  "env \<Rightarrow> config \<Rightarrow> (string \<times> string) list \<Rightarrow> event list
     \<Rightarrow> ((error + unit) \<times> event list) option" where
  "replicateTables e cfg [] tr = Some (Inr (), tr)"
| "replicateTables e cfg ((schema, table) # rest) tr =
     (case replicateTable e cfg schema table
             (tr @ [Report ConsoleLog ''Processing table'' [Text schema, Text table]]) of
        None \<Rightarrow> None
      | Some (Inl err, tr1) \<Rightarrow> Some (Inl err, tr1)
      | Some (Inr u, tr1) \<Rightarrow> replicateTables e cfg rest tr1)"

fun replicateViews :: "env \<Rightarrow> (string \<times> string) list \<Rightarrow> event list \<Rightarrow> event list" where
  "replicateViews e [] tr = tr"
| "replicateViews e ((schema, viewName) # rest) tr =
     replicateViews e rest
       (replicateView e schema viewName
          (tr @ [Report ConsoleLog ''Processing view'' [Text schema, Text viewName]]))"

text \<open>
  \<open>replicateAll()\<close>. \<open>Inl err\<close> is the rejection of its promise: the run stops where the
  exception was thrown, and nothing after that point happens. Closing the source connection
  at the end neither prints nor queries, and leaves no event.
\<close>

definition replicateAll :: "env \<Rightarrow> config \<Rightarrow> ((error + unit) \<times> event list) option" where
  "replicateAll e cfg =
     (case connectDB2 e [Report ConsoleLog ''Starting replication process...'' []] of
        (Inl err, tr1) \<Rightarrow> Some (Inl err, tr1)
      | (Inr u, tr1) \<Rightarrow>
        (case (if reset cfg then dropSchemas e (uniqueSchemas cfg) tr1 else (Inr (), tr1)) of
           (Inl err, tr2) \<Rightarrow> Some (Inl err, tr2)
         | (Inr u, tr2) \<Rightarrow>
           (case ensureSchemas e (uniqueSchemas cfg) tr2 of
              (Inl err, tr3) \<Rightarrow> Some (Inl err, tr3)
            | (Inr u, tr3) \<Rightarrow>
              (case (if length (tables cfg) = 0
                     then Some (Inr (),
                                tr3 @ [Report ConsoleLog
                                         ''No tables specified in REPLICATED_TABLES. Skipping table replication.''
                                         []])
                     else replicateTables e cfg (tables cfg)
                            (tr3 @ [Report ConsoleLog ''Starting table replication...'' []])) of
                 None \<Rightarrow> None
               | Some (Inl err, tr4) \<Rightarrow> Some (Inl err, tr4)
               | Some (Inr u, tr4) \<Rightarrow>
                   (let tr5 = (if length (views cfg) = 0
                               then tr4 @ [Report ConsoleLog
                                             ''No views specified in REPLICATED_VIEWS. Skipping view replication.''
                                             []]
                               else replicateViews e (views cfg)
                                      (tr4 @ [Report ConsoleLog ''Starting view replication...'' []]))
                    in Some (Inr (), tr5 @ [Report ConsoleLog ''Replication process complete!'' []]))))))"

section \<open>Observing a run\<close>

text \<open>What kind of statement an event of the trace is.\<close>

fun isCreateTable :: "event \<Rightarrow> bool" where
  "isCreateTable (PgQuery (CreateTable s t defs) r) = True"
| "isCreateTable ev = False"

fun isTruncate :: "event \<Rightarrow> bool" where
  "isTruncate (PgQuery (Truncate s t) r) = True"
| "isTruncate ev = False"

fun isInsert :: "event \<Rightarrow> bool" where
  "isInsert (PgQuery (Insert s t names placeholders vals) r) = True"
| "isInsert ev = False"

fun isPageFetch :: "event \<Rightarrow> bool" where
  "isPageFetch (Db2Query (SelectPage s t keys offset n) r) = True"
| "isPageFetch ev = False"

text \<open>The rows the destination reports as inserted by an event, and by a trace.\<close>

fun insertedRows :: "event \<Rightarrow> nat" where
  "insertedRows (PgQuery (Insert s t names placeholders vals) (Inr result)) = rowCount result"
| "insertedRows ev = 0"

definition rowsInserted :: "event list \<Rightarrow> nat" where
  "rowsInserted tr = sum_list (map insertedRows tr)"

definition pageFetches :: "event list \<Rightarrow> nat" where
  "pageFetches tr = length (filter isPageFetch tr)"

text \<open>
  The consecutive slices of a sequence, \<open>sz\<close> elements each and the last one possibly
  shorter.
\<close>

definition slices :: "nat \<Rightarrow> 'a list \<Rightarrow> 'a list list" where
  "slices sz xs = map (\<lambda>k. take sz (drop (k * sz) xs)) [0..<(length xs + sz - 1) div sz]"

text \<open>
  Batched insertion as the specification words it: one parameterized \<open>INSERT\<close> for each
  sub-batch, in order, the affected-row counts added up, and the first failure reported and
  raised again.
\<close>

fun insertBatches ::
  "env \<Rightarrow> string \<Rightarrow> string \<Rightarrow> column list \<Rightarrow> row list list \<Rightarrow> nat \<Rightarrow> event list
     \<Rightarrow> (error + nat) \<times> event list" where
  "insertBatches e schema table columns [] acc tr = (Inr acc, tr)"
| "insertBatches e schema table columns (batch # rest) acc tr =
     (let query = Insert schema table (map cname columns) (valuePlaceholders columns batch)
                    (flatValues columns batch)
      in case pgRespond e tr query of
           Inr result \<Rightarrow>
             insertBatches e schema table columns rest (acc + rowCount result)
               (tr @ [PgQuery query (Inr result)])
         | Inl err \<Rightarrow>
             (Inl err,
              tr @ [PgQuery query (Inl err),
                    Report ConsoleError ''Error inserting batch into''
                      [Text schema, Text table, Text (message err)],
                    Report ConsoleError ''Failing Query'' [PgStmt query]]))"

text \<open>
  The chunks the source handed out, in order, and what a run of the transfer loop amounts
  to: the rows it counted, the page fetches it issued, the rows the destination inserted.
\<close>

fun pageOf :: "event \<Rightarrow> row list list" where
  "pageOf (Db2Query (SelectPage s t keys offset n) (Inr res)) = [res]"
| "pageOf ev = []"

definition fetchedPages :: "event list \<Rightarrow> row list list" where
  "fetchedPages tr = concat (map pageOf tr)"

definition transferSummary :: "(nat \<times> event list) option \<Rightarrow> (nat \<times> nat \<times> nat) option" where
  "transferSummary r =
     (case r of
        None \<Rightarrow> None
      | Some (totalFetched, tr) \<Rightarrow> Some (totalFetched, pageFetches tr, rowsInserted tr))"

text \<open>Further observations: the reports of the two skipping branches of the insertion loop.\<close>

fun isMismatchReport :: "event \<Rightarrow> bool" where
  "isMismatchReport (Report ch msg args) =
     (msg = ''Error inserting data: values length does not match expected length'')"
| "isMismatchReport ev = False"

fun isEmptyValuesSkip :: "event \<Rightarrow> bool" where
  "isEmptyValuesSkip (Report ch msg args) = (msg = ''Skipping insert as values array is empty'')"
| "isEmptyValuesSkip ev = False"

text \<open>The destination statements of a trace, in order.\<close>

fun pgStatement :: "event \<Rightarrow> pgstmt list" where
  "pgStatement (PgQuery q r) = [q]"
| "pgStatement ev = []"

definition pgStatements :: "event list \<Rightarrow> pgstmt list" where
  "pgStatements tr = concat (map pgStatement tr)"

text \<open>The \<open>INSERT\<close> statement for one sub-batch.\<close>

definition insertOf :: "string \<Rightarrow> string \<Rightarrow> column list \<Rightarrow> row list \<Rightarrow> pgstmt" where
  "insertOf schema table columns batch =
     Insert schema table (map cname columns) (valuePlaceholders columns batch)
       (flatValues columns batch)"

text \<open>The slices that remain from position \<open>i\<close> on.\<close>

definition slicesFrom :: "nat \<Rightarrow> nat \<Rightarrow> 'a list \<Rightarrow> 'a list list" where
  "slicesFrom sz i xs =
     map (\<lambda>k. take sz (drop (i + k * sz) xs)) [0..<(length xs - i + sz - 1) div sz]"

section \<open>A simulated pair of databases\<close>

text \<open>
  A small world to run the pipeline in: the catalog rows of one source table, its rows, the
  catalog rows of one view, the count the destination reports, the destination statements
  that fail, and the source tables whose column catalog cannot be read.
\<close>

record world =
  columnRows :: "row list"
  keyRows :: "row list"
  sourceRows :: "row list"
  viewRows :: "row list"
  destinationCount :: string
  failing :: "pgstmt \<Rightarrow> bool"
  catalogFails :: "string \<Rightarrow> bool"

definition simulate :: "world \<Rightarrow> env" where
  "simulate w =
     \<lparr>db2Open = None,
      db2Respond = (\<lambda>tr q.
        case q of
          SelectColumns s t \<Rightarrow>
            if catalogFails w t then Inl (DbError ''catalog query failed'')
            else Inr (columnRows w)
        | SelectKeyColumns s t \<Rightarrow> Inr (keyRows w)
        | SelectPage s t keys offset n \<Rightarrow> Inr (take n (drop offset (sourceRows w)))
        | SelectCountDb2 s t \<Rightarrow> Inr [(0, [(''COUNT'', JNum (int (length (sourceRows w))))])]
        | SelectViewText s v \<Rightarrow> Inr (viewRows w)),
      pgRespond = (\<lambda>tr q.
        if failing w q then Inl (DbError ''statement failed'')
        else (case q of
                Insert s t names placeholders vals \<Rightarrow> Inr (PgResult [] (length placeholders))
              | SelectCountPg s t \<Rightarrow>
                  Inr (PgResult [(0, [(''count'', JStr (destinationCount w))])] 1)
              | _ \<Rightarrow> Inr (PgResult [] 0)))\<rparr>"

text \<open>
  A source table \<open>S.T\<close> with the columns \<open>ID\<close> and \<open>NAME\<close> and three rows, and a view whose
  name contains the letters \<open>as\<close>.
\<close>

definition sampleColumnRows :: "row list" where
  "sampleColumnRows =
     [(1, [(''COLNAME'', JStr ''ID''), (''TYPENAME'', JStr ''INTEGER''), (''LENGTH'', JNum 4)]),
      (2, [(''COLNAME'', JStr ''NAME''), (''TYPENAME'', JStr ''VARCHAR''), (''LENGTH'', JNum 20)])]"

definition sampleRows :: "row list" where
  "sampleRows =
     [(11, [(''ID'', JNum 1), (''NAME'', JStr ''a'')]),
      (12, [(''ID'', JNum 2), (''NAME'', JStr ''b'')]),
      (13, [(''ID'', JNum 3), (''NAME'', JStr ''c'')])]"

definition sampleWorld :: world where
  "sampleWorld =
     \<lparr>columnRows = sampleColumnRows,
      keyRows = [(3, [(''COLNAME'', JStr ''ID'')])],
      sourceRows = sampleRows,
      viewRows = [(4, [(''TEXT'', JStr ''CREATE VIEW S.BASE AS SELECT 1'')])],
      destinationCount = ''3'',
      failing = (\<lambda>q. False),
      catalogFails = (\<lambda>t. False)\<rparr>"

definition sampleColumns :: "column list" where
  "sampleColumns = [\<lparr>cname = ''ID'', ctype = ''INTEGER''\<rparr>, \<lparr>cname = ''NAME'', ctype = ''TEXT''\<rparr>]"



text \<open>
  The same world with a source whose column catalog cannot be read for the table \<open>A\<close>, and
  can be read for every other table.
\<close>

definition catalogFailingWorld :: world where
  "catalogFailingWorld = sampleWorld\<lparr>catalogFails := (\<lambda>t. t = ''A'')\<rparr>"

text \<open>
  Two tables and a view to replicate, and destinations that refuse to create the first
  table, to truncate, or to insert.
\<close>

definition twoTables :: config where
  "twoTables =
     \<lparr>tables = [(''s'', ''a''), (''s'', ''b'')], views = [(''s'', ''base'')],
      chunkSize = 2, reset = False\<rparr>"

fun createsTable :: "string \<Rightarrow> pgstmt \<Rightarrow> bool" where
  "createsTable name (CreateTable s t defs) = (t = name)"
| "createsTable name q = False"

fun isTruncateStmt :: "pgstmt \<Rightarrow> bool" where
  "isTruncateStmt (Truncate s t) = True"
| "isTruncateStmt q = False"

fun isInsertStmt :: "pgstmt \<Rightarrow> bool" where
  "isInsertStmt (Insert s t names placeholders vals) = True"
| "isInsertStmt q = False"

definition tableFailingWorld :: world where
  "tableFailingWorld = sampleWorld\<lparr>failing := createsTable ''a''\<rparr>"

definition truncateFailingWorld :: world where
  "truncateFailingWorld = sampleWorld\<lparr>destinationCount := ''0'', failing := isTruncateStmt\<rparr>"

definition insertFailingWorld :: world where
  "insertFailingWorld = sampleWorld\<lparr>destinationCount := ''0'', failing := isInsertStmt\<rparr>"

section \<open>Properties of the Type Translator\<close>

subsection \<open>Slicing\<close>

lemma map_upt_shift: "map f [0..<Suc n] = f 0 # map (\<lambda>k. f (Suc k)) [0..<n]"
  by (simp only: upt_conv_Cons [of 0 "Suc n"] map_Suc_upt [symmetric]) (simp add: comp_def)

lemma chunk_count_step:
  assumes "0 < sz" "i < (n::nat)"
  shows "(n - i + sz - 1) div sz = Suc ((n - (i + sz) + sz - 1) div sz)"
proof (cases "i + sz \<le> n")
  case True
  then have e: "n - i + sz - 1 = (n - (i + sz) + sz - 1) + sz" using assms by simp
  show ?thesis unfolding e using assms by (simp only: div_add_self2)
next
  case False
  then have a: "n - (i + sz) + sz - 1 = sz - 1" by simp
  have b: "sz \<le> n - i + sz - 1" "n - i + sz - 1 < 2 * sz" using assms False by auto
  have "(n - i + sz - 1) div sz = 1"
    by (rule div_nat_eqI) (use b assms in auto)
  then show ?thesis using a assms by simp
qed

lemma chunkLoop_result:
  assumes "0 < sz"
  shows "chunkLoop array sz i acc =
           Some (acc @ map (\<lambda>k. take sz (drop (i + k * sz) array))
                           [0..<(length array - i + sz - 1) div sz])"
proof (induction "length array - i" arbitrary: i acc rule: less_induct)
  case less
  show ?case
  proof (cases "i < length array")
    case False
    then have "(length array - i + sz - 1) div sz = 0" using assms by simp
    with False show ?thesis by (subst chunkLoop.simps) simp
  next
    case True
    have lt: "length array - (i + sz) < length array - i" using True assms by simp
    have cnt: "(length array - i + sz - 1) div sz = Suc ((length array - (i + sz) + sz - 1) div sz)"
      by (rule chunk_count_step [OF assms True])
    have sh: "(\<lambda>k. take sz (drop (i + Suc k * sz) array)) = (\<lambda>k. take sz (drop (i + sz + k * sz) array))"
      by (simp add: add.assoc)
    show ?thesis
      apply (subst chunkLoop.simps)
      apply (simp only: True if_True less.hyps [OF lt] cnt map_upt_shift sh)
      apply simp
      done
  qed
qed

lemma ceil_div_bounds:
  assumes "0 < sz"
  shows "(n::nat) \<le> ((n + sz - 1) div sz) * sz"
    and "0 < (n + sz - 1) div sz \<Longrightarrow> ((n + sz - 1) div sz - 1) * sz < n"
proof -
  define q where "q = (n + sz - 1) div sz"
  define r where "r = (n + sz - 1) mod sz"
  have eq: "n + sz - 1 = q * sz + r" and r: "r < sz"
    using assms by (simp_all add: q_def r_def)
  show "n \<le> ((n + sz - 1) div sz) * sz"
    using eq r unfolding q_def [symmetric] by linarith
  assume "0 < (n + sz - 1) div sz"
  then have q: "0 < q" by (simp add: q_def)
  then obtain q' where q': "q = Suc q'" by (cases q) auto
  have "q' * sz + sz + r = n + sz - 1" using eq q' by simp
  then have "q' * sz < n" using r assms by linarith
  then show "((n + sz - 1) div sz - 1) * sz < n"
    unfolding q_def [symmetric] q' by simp
qed

lemma concat_slices:
  "concat (map (\<lambda>k. take sz (drop (k * sz) s)) [0..<n]) = take (n * sz) s"
proof (induction n)
  case 0
  show ?case by simp
next
  case (Suc n)
  have "Suc n * sz = n * sz + sz" by simp
  then have "take (Suc n * sz) s = take (n * sz) s @ take sz (drop (n * sz) s)"
    by (simp only: take_add)
  with Suc show ?case by simp
qed


text \<open>
  Claim C10. For a positive \<open>size\<close>, \<open>chunkArray\<close> returns, and what it returns are the
  consecutive slices of the array: slice \<open>k\<close> is the \<open>size\<close> elements from position
  \<open>k * size\<close> on, none is empty or longer than \<open>size\<close>, all but the last have exactly
  \<open>size\<close> elements, and their concatenation is the array. The numbers one to ten in threes
  are \<open>[[1,2,3],[4,5,6],[7,8,9],[10]]\<close>, and the empty array gives no slice at all.
\<close>

theorem chunkArray_partitions:
  "(0 < sz \<longrightarrow>
      (\<exists>r. chunkArray s sz = Some r
           \<and> concat r = s
           \<and> length r = (length s + sz - 1) div sz
           \<and> (\<forall>k < length r. r ! k = take sz (drop (k * sz) s)
                              \<and> r ! k \<noteq> [] \<and> length (r ! k) \<le> sz)
           \<and> (\<forall>k. Suc k < length r \<longrightarrow> length (r ! k) = sz)))
   \<and> chunkArray [1, 2, 3, 4, 5, 6, 7, 8, 9, 10 :: nat] 3
        = Some [[1, 2, 3], [4, 5, 6], [7, 8, 9], [10]]
   \<and> (0 < n \<longrightarrow> chunkArray ([] :: 'a list) n = Some [])"
proof (intro conjI impI)
  assume sz: "0 < sz"
  define m where "m = (length s + sz - 1) div sz"
  define r where "r = map (\<lambda>k. take sz (drop (k * sz) s)) [0..<m]"
  have run: "chunkArray s sz = Some r"
    unfolding chunkArray_def r_def m_def using chunkLoop_result [OF sz, of s 0 "[]"] by simp
  have len: "length r = m" by (simp add: r_def)
  have cover: "length s \<le> m * sz"
    unfolding m_def by (rule ceil_div_bounds(1) [OF sz])
  have cat: "concat r = s"
    unfolding r_def using concat_slices [of sz s m] cover by simp
  have nth: "r ! k = take sz (drop (k * sz) s)" if "k < m" for k
    using that by (simp add: r_def)
  have start: "k * sz < length s" if "k < m" for k
  proof -
    from that have "0 < m" by simp
    then have "(m - 1) * sz < length s"
      unfolding m_def by (rule ceil_div_bounds(2) [OF sz])
    moreover have "k \<le> m - 1" using that by linarith
    then have "k * sz \<le> (m - 1) * sz" by (rule mult_le_mono1)
    ultimately show ?thesis by linarith
  qed
  have full: "length (r ! k) = sz" if "Suc k < m" for k
  proof -
    have "Suc k * sz < length s" by (rule start [OF that])
    then have "sz \<le> length s - k * sz" by simp
    moreover have "k < m" using that by simp
    ultimately show ?thesis by (simp add: nth)
  qed
  have each: "r ! k = take sz (drop (k * sz) s) \<and> r ! k \<noteq> [] \<and> length (r ! k) \<le> sz"
    if "k < m" for k
    using nth [OF that] start [OF that] sz by simp
  show "\<exists>r. chunkArray s sz = Some r
           \<and> concat r = s
           \<and> length r = (length s + sz - 1) div sz
           \<and> (\<forall>k < length r. r ! k = take sz (drop (k * sz) s)
                              \<and> r ! k \<noteq> [] \<and> length (r ! k) \<le> sz)
           \<and> (\<forall>k. Suc k < length r \<longrightarrow> length (r ! k) = sz)"
    using run cat len each full unfolding m_def [symmetric] by blast
next
  show "chunkArray [1, 2, 3, 4, 5, 6, 7, 8, 9, 10 :: nat] 3
          = Some [[1, 2, 3], [4, 5, 6], [7, 8, 9], [10]]"
    by (simp add: chunkArray_def chunkLoop.simps)
next
  show "chunkArray ([] :: 'a list) n = Some []"
    by (simp add: chunkArray_def chunkLoop.simps)
qed

theorem chunkArray_partitions_witness:
  "(0::nat) < 2 \<and> chunkArray ''abcde'' 2 = Some [''ab'', ''cd'', ''e'']
   \<and> concat [''ab'', ''cd'', ''e''] = ''abcde''"
proof -
  have "0 < (2::nat)" by simp
  with chunkArray_partitions [of 2 "''abcde''" 1]
  obtain r where r: "chunkArray ''abcde'' 2 = Some r" "concat r = ''abcde''"
    by blast
  have "chunkArray ''abcde'' 2 = Some [''ab'', ''cd'', ''e'']"
    by (simp add: chunkArray_def chunkLoop.simps)
  with r show ?thesis by simp
qed

subsection \<open>Formatting values\<close>

lemma replaceAll_single:
  "replaceAll [q] repl s = concat (map (\<lambda>c. if c = q then repl else [c]) s)"
  by (induction s) auto

lemma strIncludes_set: "strIncludes s needle \<Longrightarrow> set needle \<subseteq> set s"
proof (induction s)
  case Nil
  then show ?case by simp
next
  case (Cons c cs)
  from Cons.prems have "prefix needle (c # cs) \<or> strIncludes cs needle" by simp
  then show ?case
  proof
    assume "prefix needle (c # cs)"
    then show ?thesis by (rule set_mono_prefix)
  next
    assume "strIncludes cs needle"
    then have "set needle \<subseteq> set cs" by (rule Cons.IH)
    then show ?thesis by auto
  qed
qed

lemma digitChar_digit: "d < 10 \<Longrightarrow> digitChar d \<in> set ''0123456789''"
  unfolding digitChar_def by (rule nth_mem) simp

lemma natToString_digits: "c \<in> set (natToString n) \<Longrightarrow> c \<in> set ''0123456789''"
proof (induction n rule: natToString.induct)
  case (1 n)
  show ?case
  proof (cases "n < 10")
    case True
    with "1.prems" have "c = digitChar n" by (subst (asm) natToString.simps) simp
    with True show ?thesis by (simp only: digitChar_digit)
  next
    case False
    with "1.prems" have "c \<in> set (natToString (n div 10)) \<or> c = digitChar (n mod 10)"
      by (subst (asm) natToString.simps) auto
    then show ?thesis
    proof
      assume "c \<in> set (natToString (n div 10))"
      with False show ?thesis by (rule "1.IH")
    next
      have "n mod 10 < 10" by simp
      then have "digitChar (n mod 10) \<in> set ''0123456789''" by (rule digitChar_digit)
      moreover assume "c = digitChar (n mod 10)"
      ultimately show ?thesis by simp
    qed
  qed
qed

lemma intToString_no_letter:
  "CHR ''T'' \<notin> set (intToString i)" "CHR ''H'' \<notin> set (intToString i)"
proof -
  have a: "CHR ''T'' \<notin> set (natToString n)" for n
  proof
    assume "CHR ''T'' \<in> set (natToString n)"
    then have "CHR ''T'' \<in> set ''0123456789''" by (rule natToString_digits)
    then show False by simp
  qed
  have b: "CHR ''H'' \<notin> set (natToString n)" for n
  proof
    assume "CHR ''H'' \<in> set (natToString n)"
    then have "CHR ''H'' \<in> set ''0123456789''" by (rule natToString_digits)
    then show False by simp
  qed
  show "CHR ''T'' \<notin> set (intToString i)" by (simp add: intToString_def a)
  show "CHR ''H'' \<notin> set (intToString i)" by (simp add: intToString_def b)
qed

lemma decimal_no_text:
  assumes "CHR ''T'' \<in> set needle \<or> CHR ''H'' \<in> set needle"
  shows "\<not> strIncludes (''DECIMAL('' @ intToString i @ '',2)'') needle"
proof
  assume "strIncludes (''DECIMAL('' @ intToString i @ '',2)'') needle"
  then have "set needle \<subseteq> set (''DECIMAL('' @ intToString i @ '',2)'')"
    by (rule strIncludes_set)
  with assms have "CHR ''T'' \<in> set (''DECIMAL('' @ intToString i @ '',2)'')
                 \<or> CHR ''H'' \<in> set (''DECIMAL('' @ intToString i @ '',2)'')"
    by blast
  then show False by (simp add: intToString_no_letter)
qed


lemma numeric_types_plain:
  assumes "ty \<in> set [''INTEGER'', ''SMALLINT'', ''BIGINT'', ''DOUBLE PRECISION'', ''REAL'']"
  shows "\<not> strIncludes ty ''TEXT''" "\<not> strIncludes ty ''CHAR''"
        "\<not> strIncludes ty ''TIMESTAMP''" "\<not> strIncludes ty ''DATE''"
        "strIncludes ty ''INTEGER'' \<or> strIncludes ty ''SMALLINT'' \<or> strIncludes ty ''BIGINT''
         \<or> strIncludes ty ''DECIMAL'' \<or> strIncludes ty ''NUMERIC'' \<or> strIncludes ty ''DOUBLE''
         \<or> strIncludes ty ''REAL''"
  using assms by auto

lemma mapDb2ToPostgresType_numeric:
  "mapDb2ToPostgresType (JStr ''INTEGER'') len = ''INTEGER''"
  "mapDb2ToPostgresType (JStr ''SMALLINT'') len = ''SMALLINT''"
  "mapDb2ToPostgresType (JStr ''BIGINT'') len = ''BIGINT''"
  "mapDb2ToPostgresType (JStr ''DECIMAL'') len = ''DECIMAL('' @ toString len @ '',2)''"
  "mapDb2ToPostgresType (JStr ''DOUBLE'') len = ''DOUBLE PRECISION''"
  "mapDb2ToPostgresType (JStr ''REAL'') len = ''REAL''"
  by (simp_all add: mapDb2ToPostgresType_def typeMapping_def)

lemma formatValue_plain:
  assumes "val \<noteq> JNull" "val \<noteq> JStr []"
    and "ty \<in> set [''INTEGER'', ''SMALLINT'', ''BIGINT'', ''DOUBLE PRECISION'', ''REAL'']"
  shows "formatValue val ty = val"
  unfolding formatValue_def
  using assms(1,2) numeric_types_plain [OF assms(3)] by (simp only: if_False if_True HOL.simp_thms)

lemma formatValue_decimal:
  assumes "val \<noteq> JNull" "val \<noteq> JStr []"
  shows "formatValue val (''DECIMAL('' @ intToString i @ '',2)'') = val"
proof -
  have no: "\<not> strIncludes (''DECIMAL('' @ intToString i @ '',2)'') ''TEXT''"
           "\<not> strIncludes (''DECIMAL('' @ intToString i @ '',2)'') ''CHAR''"
           "\<not> strIncludes (''DECIMAL('' @ intToString i @ '',2)'') ''TIMESTAMP''"
           "\<not> strIncludes (''DECIMAL('' @ intToString i @ '',2)'') ''DATE''"
    by (rule decimal_no_text, simp)+
  have yes: "strIncludes (''DECIMAL('' @ intToString i @ '',2)'') ''DECIMAL''"
    by simp
  show ?thesis
    unfolding formatValue_def using assms no yes by (simp only: if_False if_True HOL.simp_thms)
qed

text \<open>
  Claim C9. \<open>formatValue\<close> gives \<open>NULL\<close> for \<open>null\<close> and for the empty string whatever the
  type; for a type that contains \<open>TEXT\<close> or \<open>CHAR\<close> it gives the trimmed text of the value
  between single quotes, every single quote in it doubled, so that \<open>O'Brien\<close> becomes
  \<open>'O''Brien'\<close>; and for each numeric type the translator produces (\<open>INTEGER\<close>,
  \<open>SMALLINT\<close>, \<open>BIGINT\<close>, \<open>DECIMAL(n,2)\<close>, \<open>DOUBLE PRECISION\<close>, \<open>REAL\<close>) it hands the
  value back unquoted.
\<close>

theorem formatValue_rules:
  "formatValue JNull ty = JStr ''NULL''
   \<and> formatValue (JStr []) ty = JStr ''NULL''
   \<and> ((strIncludes ty ''TEXT'' \<or> strIncludes ty ''CHAR'') \<and> val \<noteq> JNull \<and> val \<noteq> JStr []
        \<longrightarrow> formatValue val ty =
              JStr ([quoteChar]
                    @ concat (map (\<lambda>c. if c = quoteChar then [quoteChar, quoteChar] else [c])
                                  (trim (toString val)))
                    @ [quoteChar]))
   \<and> formatValue (JStr ''O'Brien'') ''TEXT''
         = JStr ([quoteChar] @ ''O'' @ [quoteChar, quoteChar] @ ''Brien'' @ [quoteChar])
   \<and> (val \<noteq> JNull \<and> val \<noteq> JStr []
        \<and> db2Type \<in> set [''INTEGER'', ''SMALLINT'', ''BIGINT'', ''DECIMAL'', ''DOUBLE'', ''REAL'']
        \<longrightarrow> formatValue val (mapDb2ToPostgresType (JStr db2Type) (JNum len)) = val)"
proof (intro conjI impI)
  show "formatValue JNull ty = JStr ''NULL''"
    by (simp add: formatValue_def)
next
  show "formatValue (JStr []) ty = JStr ''NULL''"
    by (simp add: formatValue_def)
next
  assume "(strIncludes ty ''TEXT'' \<or> strIncludes ty ''CHAR'') \<and> val \<noteq> JNull \<and> val \<noteq> JStr []"
  then show "formatValue val ty =
               JStr ([quoteChar]
                     @ concat (map (\<lambda>c. if c = quoteChar then [quoteChar, quoteChar] else [c])
                                   (trim (toString val)))
                     @ [quoteChar])"
    unfolding formatValue_def replaceAll_single by (simp only: if_False if_True HOL.simp_thms)
next
  show "formatValue (JStr ''O'Brien'') ''TEXT''
          = JStr ([quoteChar] @ ''O'' @ [quoteChar, quoteChar] @ ''Brien'' @ [quoteChar])"
    by (simp add: formatValue_def quoteChar_def trim_def isWhiteSpace_def)
next
  assume a: "val \<noteq> JNull \<and> val \<noteq> JStr []
             \<and> db2Type \<in> set [''INTEGER'', ''SMALLINT'', ''BIGINT'', ''DECIMAL'', ''DOUBLE'', ''REAL'']"
  then have v: "val \<noteq> JNull" "val \<noteq> JStr []" by simp_all
  from a consider "db2Type = ''INTEGER''" | "db2Type = ''SMALLINT''" | "db2Type = ''BIGINT''"
    | "db2Type = ''DECIMAL''" | "db2Type = ''DOUBLE''" | "db2Type = ''REAL''"
    by auto
  then show "formatValue val (mapDb2ToPostgresType (JStr db2Type) (JNum len)) = val"
  proof cases
    case 1
    show ?thesis unfolding 1 mapDb2ToPostgresType_numeric by (rule formatValue_plain [OF v]) simp
  next
    case 2
    show ?thesis unfolding 2 mapDb2ToPostgresType_numeric by (rule formatValue_plain [OF v]) simp
  next
    case 3
    show ?thesis unfolding 3 mapDb2ToPostgresType_numeric by (rule formatValue_plain [OF v]) simp
  next
    case 4
    show ?thesis unfolding 4 mapDb2ToPostgresType_numeric toString.simps
      by (rule formatValue_decimal [OF v])
  next
    case 5
    show ?thesis unfolding 5 mapDb2ToPostgresType_numeric by (rule formatValue_plain [OF v]) simp
  next
    case 6
    show ?thesis unfolding 6 mapDb2ToPostgresType_numeric by (rule formatValue_plain [OF v]) simp
  qed
qed

theorem formatValue_rules_witness:
  "formatValue (JStr ''  it's  '') ''TEXT''
     = JStr ([quoteChar] @ ''it'' @ [quoteChar, quoteChar] @ ''s'' @ [quoteChar])
   \<and> formatValue (JNum 42) (mapDb2ToPostgresType (JStr ''DECIMAL'') (JNum 10)) = JNum 42
   \<and> mapDb2ToPostgresType (JStr ''DECIMAL'') (JNum 10) = ''DECIMAL(10,2)''"
proof -
  have t: "trim ''  it's  '' = ''it's''"
    by (simp add: trim_def isWhiteSpace_def)
  have "formatValue (JStr ''  it's  '') ''TEXT''
          = JStr ([quoteChar]
                  @ concat (map (\<lambda>c. if c = quoteChar then [quoteChar, quoteChar] else [c])
                                (trim (toString (JStr ''  it's  ''))))
                  @ [quoteChar])"
    using formatValue_rules [of "''TEXT''" "JStr ''  it's  ''" "''DECIMAL''" 10] by simp
  then have a: "formatValue (JStr ''  it's  '') ''TEXT''
     = JStr ([quoteChar] @ ''it'' @ [quoteChar, quoteChar] @ ''s'' @ [quoteChar])"
    by (simp add: t quoteChar_def)
  have b: "formatValue (JNum 42) (mapDb2ToPostgresType (JStr ''DECIMAL'') (JNum 10)) = JNum 42"
    using formatValue_rules [of "''TEXT''" "JNum 42" "''DECIMAL''" 10] by simp
  have c: "mapDb2ToPostgresType (JStr ''DECIMAL'') (JNum 10) = ''DECIMAL(10,2)''"
    by (simp add: mapDb2ToPostgresType_def typeMapping_def intToString_def natToString.simps
                  digitChar_def)
  from a b c show ?thesis by simp
qed

section \<open>Properties of the Destination Accessor\<close>

subsection \<open>Creating views\<close>





subsection \<open>Batched insertion\<close>

lemma length_flatValues: "length (flatValues columns batch) = length columns * length batch"
  by (induction batch) (simp_all add: flatValues_def)

lemma slicesFrom_0: "slicesFrom sz 0 xs = slices sz xs"
  by (simp add: slicesFrom_def slices_def)

lemma slicesFrom_done: "0 < sz \<Longrightarrow> length xs \<le> i \<Longrightarrow> slicesFrom sz i xs = []"
  by (simp add: slicesFrom_def)

lemma slicesFrom_step:
  assumes "0 < sz" "i < length xs"
  shows "slicesFrom sz i xs = take sz (drop i xs) # slicesFrom sz (i + sz) xs"
proof -
  have sh: "(\<lambda>k. take sz (drop (i + Suc k * sz) xs)) = (\<lambda>k. take sz (drop (i + sz + k * sz) xs))"
    by (simp add: add.assoc)
  show ?thesis
    unfolding slicesFrom_def chunk_count_step [OF assms] map_upt_shift sh by simp
qed

lemma insertLoop_refines:
  assumes "columns \<noteq> []"
  shows "insertLoop e schema table columns chunk i acc tr =
           insertBatches e schema table columns (slicesFrom batchSize i chunk) acc tr"
proof (induction "length chunk - i" arbitrary: i acc tr rule: less_induct)
  case less
  have bs: "0 < batchSize" by (simp add: batchSize_def)
  show ?case
  proof (cases "i < length chunk")
    case False
    then have "slicesFrom batchSize i chunk = []" using bs by (simp add: slicesFrom_done)
    with False show ?thesis by (subst insertLoop.simps) simp
  next
    case True
    define batch where "batch = take batchSize (drop i chunk)"
    have ne: "batch \<noteq> []" using True bs by (simp add: batch_def)
    have len: "length (flatValues columns batch) = length columns * length batch"
      by (rule length_flatValues)
    have pos: "(length columns * length batch = 0) = False"
      using ne assms by simp
    have lt: "length chunk - (i + batchSize) < length chunk - i" using True bs by simp
    have step: "slicesFrom batchSize i chunk = batch # slicesFrom batchSize (i + batchSize) chunk"
      unfolding batch_def by (rule slicesFrom_step [OF bs True])
    show ?thesis
      apply (subst insertLoop.simps)
      apply (simp only: True if_True step Let_def batch_def [symmetric] insertBatches.simps)
      apply (simp only: len pos if_False HOL.simp_thms less.hyps [OF lt])
      done
  qed
qed


lemma rowsInserted_append [simp]: "rowsInserted (a @ b) = rowsInserted a + rowsInserted b"
  by (simp add: rowsInserted_def)

lemma rowsInserted_Nil [simp]: "rowsInserted [] = 0"
  by (simp add: rowsInserted_def)

lemma rowsInserted_Cons [simp]: "rowsInserted (ev # tr) = insertedRows ev + rowsInserted tr"
  by (simp add: rowsInserted_def)

lemma pgStatements_append [simp]: "pgStatements (a @ b) = pgStatements a @ pgStatements b"
  by (simp add: pgStatements_def)

lemma pgStatements_Nil [simp]: "pgStatements [] = []"
  by (simp add: pgStatements_def)

lemma pgStatements_Cons [simp]: "pgStatements (ev # tr) = pgStatement ev @ pgStatements tr"
  by (simp add: pgStatements_def)

lemma insertBatches_outcome:
  "\<exists>new. snd (insertBatches e schema table columns bs acc tr) = tr @ new
      \<and> (\<forall>n. fst (insertBatches e schema table columns bs acc tr) = Inr n \<longrightarrow>
             n = acc + rowsInserted new
             \<and> pgStatements new = map (insertOf schema table columns) bs)
      \<and> (\<forall>err. fst (insertBatches e schema table columns bs acc tr) = Inl err \<longrightarrow>
             (\<exists>k < length bs.
                pgStatements new = map (insertOf schema table columns) (take (Suc k) bs)
                \<and> PgQuery (insertOf schema table columns (bs ! k)) (Inl err) \<in> set new))"
proof (induction bs arbitrary: acc tr)
  case Nil
  show ?case by simp
next
  case (Cons b bs)
  define q where "q = insertOf schema table columns b"
  show ?case
  proof (cases "pgRespond e tr q")
    case (Inl err)
    then have run: "insertBatches e schema table columns (b # bs) acc tr =
        (Inl err, tr @ [PgQuery q (Inl err),
                        Report ConsoleError ''Error inserting batch into''
                          [Text schema, Text table, Text (message err)],
                        Report ConsoleError ''Failing Query'' [PgStmt q]])"
      by (simp add: q_def insertOf_def Let_def)
    show ?thesis
      unfolding run
      by (rule exI [of _ "[PgQuery q (Inl err),
                           Report ConsoleError ''Error inserting batch into''
                             [Text schema, Text table, Text (message err)],
                           Report ConsoleError ''Failing Query'' [PgStmt q]]"])
         (auto simp: q_def intro: exI [of _ 0])
  next
    case (Inr result)
    define tr1 where "tr1 = tr @ [PgQuery q (Inr result)]"
    from Inr have run: "insertBatches e schema table columns (b # bs) acc tr =
        insertBatches e schema table columns bs (acc + rowCount result) tr1"
      by (simp add: q_def insertOf_def Let_def tr1_def)
    from Cons.IH [of "acc + rowCount result" tr1] obtain new where
      new: "snd (insertBatches e schema table columns bs (acc + rowCount result) tr1) = tr1 @ new"
       and ok: "\<And>n. fst (insertBatches e schema table columns bs (acc + rowCount result) tr1) = Inr n
                 \<Longrightarrow> n = acc + rowCount result + rowsInserted new
                     \<and> pgStatements new = map (insertOf schema table columns) bs"
       and bad: "\<And>err. fst (insertBatches e schema table columns bs (acc + rowCount result) tr1) = Inl err
                 \<Longrightarrow> \<exists>k < length bs.
                       pgStatements new = map (insertOf schema table columns) (take (Suc k) bs)
                       \<and> PgQuery (insertOf schema table columns (bs ! k)) (Inl err) \<in> set new"
      by blast
    have ins: "insertedRows (PgQuery (insertOf schema table columns b) (Inr result))
                 = rowCount result"
      by (simp add: insertOf_def)
    show ?thesis
    proof (rule exI [of _ "PgQuery q (Inr result) # new"], intro conjI allI impI)
      show "snd (insertBatches e schema table columns (b # bs) acc tr)
              = tr @ PgQuery q (Inr result) # new"
        unfolding run new by (simp add: tr1_def)
    next
      fix n assume "fst (insertBatches e schema table columns (b # bs) acc tr) = Inr n"
      then have "fst (insertBatches e schema table columns bs (acc + rowCount result) tr1) = Inr n"
        unfolding run .
      from ok [OF this] show "n = acc + rowsInserted (PgQuery q (Inr result) # new)"
        and "pgStatements (PgQuery q (Inr result) # new)
               = map (insertOf schema table columns) (b # bs)"
        by (simp_all add: ins q_def)
    next
      fix err assume "fst (insertBatches e schema table columns (b # bs) acc tr) = Inl err"
      then have "fst (insertBatches e schema table columns bs (acc + rowCount result) tr1) = Inl err"
        unfolding run .
      from bad [OF this] obtain k where k: "k < length bs"
        "pgStatements new = map (insertOf schema table columns) (take (Suc k) bs)"
        "PgQuery (insertOf schema table columns (bs ! k)) (Inl err) \<in> set new"
        by blast
      show "\<exists>k < length (b # bs).
              pgStatements (PgQuery q (Inr result) # new)
                = map (insertOf schema table columns) (take (Suc k) (b # bs))
              \<and> PgQuery (insertOf schema table columns ((b # bs) ! k)) (Inl err)
                  \<in> set (PgQuery q (Inr result) # new)"
        by (rule exI [of _ "Suc k"]) (use k in \<open>simp add: q_def\<close>)
    qed
  qed
qed

lemma flatValues_no_columns: "flatValues [] batch = []"
  by (simp add: flatValues_def)

lemma insertLoop_events:
  "\<exists>new. snd (insertLoop e schema table columns chunk i acc tr) = tr @ new
      \<and> (\<forall>ev \<in> set new. \<not> isMismatchReport ev \<and> (isEmptyValuesSkip ev \<longrightarrow> columns = []))"
proof (induction "length chunk - i" arbitrary: i acc tr rule: less_induct)
  case less
  have bs: "0 < batchSize" by (simp add: batchSize_def)
  show ?case
  proof (cases "i < length chunk")
    case False
    then show ?thesis by (subst insertLoop.simps) simp
  next
    case True
    define batch where "batch = take batchSize (drop i chunk)"
    define q where "q = Insert schema table (map cname columns) (valuePlaceholders columns batch)
                          (flatValues columns batch)"
    have ne: "batch \<noteq> []" using True bs by (simp add: batch_def)
    have len: "length (flatValues columns batch) = length columns * length batch"
      by (rule length_flatValues)
    have lt: "length chunk - (i + batchSize) < length chunk - i" using True bs by simp
    note IH = less.hyps [OF lt]
    show ?thesis
    proof (cases "columns = []")
      case True
      have run: "insertLoop e schema table columns chunk i acc tr =
                   insertLoop e schema table columns chunk (i + batchSize) acc
                     (tr @ [Report ConsoleWarn ''Skipping insert as values array is empty''
                              [Text schema, Text table]])"
        using \<open>i < length chunk\<close> True
        by (subst insertLoop.simps) (simp add: Let_def flatValues_no_columns)
      from IH [of acc "tr @ [Report ConsoleWarn ''Skipping insert as values array is empty''
                              [Text schema, Text table]]"]
      obtain new where new:
        "snd (insertLoop e schema table columns chunk (i + batchSize) acc
               (tr @ [Report ConsoleWarn ''Skipping insert as values array is empty''
                        [Text schema, Text table]]))
           = (tr @ [Report ConsoleWarn ''Skipping insert as values array is empty''
                      [Text schema, Text table]]) @ new"
        "\<forall>ev \<in> set new. \<not> isMismatchReport ev \<and> (isEmptyValuesSkip ev \<longrightarrow> columns = [])"
        by blast
      show ?thesis
        unfolding run
        by (rule exI [of _ "Report ConsoleWarn ''Skipping insert as values array is empty''
                              [Text schema, Text table] # new"])
           (use new True in simp)
    next
      case False
      have pos: "(length columns * length batch = 0) = False" using ne False by simp
      show ?thesis
      proof (cases "pgRespond e tr q")
        case (Inl err)
        have run: "insertLoop e schema table columns chunk i acc tr =
                     (Inl err,
                      tr @ [PgQuery q (Inl err),
                            Report ConsoleError ''Error inserting batch into''
                              [Text schema, Text table, Text (message err)],
                            Report ConsoleError ''Failing Query'' [PgStmt q]])"
          using \<open>i < length chunk\<close> Inl
          apply (subst insertLoop.simps)
          apply (simp only: if_True Let_def batch_def [symmetric] len pos if_False HOL.simp_thms
                            q_def [symmetric])
          apply simp
          done
        show ?thesis
          unfolding run
          by (rule exI [of _ "[PgQuery q (Inl err),
                               Report ConsoleError ''Error inserting batch into''
                                 [Text schema, Text table, Text (message err)],
                               Report ConsoleError ''Failing Query'' [PgStmt q]]"]) simp
      next
        case (Inr result)
        have run: "insertLoop e schema table columns chunk i acc tr =
                     insertLoop e schema table columns chunk (i + batchSize)
                       (acc + rowCount result) (tr @ [PgQuery q (Inr result)])"
          using \<open>i < length chunk\<close> Inr
          apply (subst insertLoop.simps)
          apply (simp only: if_True Let_def batch_def [symmetric] len pos if_False HOL.simp_thms
                            q_def [symmetric])
          apply simp
          done
        from IH [of "acc + rowCount result" "tr @ [PgQuery q (Inr result)]"]
        obtain new where new:
          "snd (insertLoop e schema table columns chunk (i + batchSize) (acc + rowCount result)
                 (tr @ [PgQuery q (Inr result)]))
             = (tr @ [PgQuery q (Inr result)]) @ new"
          "\<forall>ev \<in> set new. \<not> isMismatchReport ev \<and> (isEmptyValuesSkip ev \<longrightarrow> columns = [])"
          by blast
        show ?thesis
          unfolding run
          by (rule exI [of _ "PgQuery q (Inr result) # new"]) (use new in simp)
      qed
    qed
  qed
qed


lemma slices_concat: "0 < sz \<Longrightarrow> concat (slices sz xs) = xs"
  unfolding slices_def using concat_slices [of sz xs "(length xs + sz - 1) div sz"]
    ceil_div_bounds(1) [of sz "length xs"] by simp

lemma slices_bounds:
  assumes "0 < sz" "b \<in> set (slices sz xs)"
  shows "b \<noteq> [] \<and> length b \<le> sz"
proof -
  define m where "m = (length xs + sz - 1) div sz"
  from assms(2) obtain k where k: "k < m" "b = take sz (drop (k * sz) xs)"
    unfolding slices_def m_def by auto
  then have "0 < m" by simp
  then have "(m - 1) * sz < length xs"
    unfolding m_def by (rule ceil_div_bounds(2) [OF assms(1)])
  moreover have "k \<le> m - 1" using k(1) by linarith
  then have "k * sz \<le> (m - 1) * sz" by (rule mult_le_mono1)
  ultimately have "k * sz < length xs" by linarith
  with k(2) assms(1) show ?thesis by simp
qed

text \<open>
  Claim C7. The flattened values of a sub-batch are one value for each column of each row,
  so their number is the number of columns times the number of rows; therefore, whatever
  the databases answer, \<open>insertIntoPostgres\<close> never prints the report of the
  parameter-count guard, and it prints the report of the empty-values skip only when the
  column list is empty.
\<close>

theorem mismatch_guard_unreachable:
  "length (flatValues columns batch) = length columns * length batch
   \<and> (\<forall>ev \<in> set (drop (length tr) (snd (insertIntoPostgres e schema table columns chunk tr))).
         \<not> isMismatchReport ev \<and> (isEmptyValuesSkip ev \<longrightarrow> columns = []))"
proof
  show "length (flatValues columns batch) = length columns * length batch"
    by (rule length_flatValues)
next
  show "\<forall>ev \<in> set (drop (length tr) (snd (insertIntoPostgres e schema table columns chunk tr))).
         \<not> isMismatchReport ev \<and> (isEmptyValuesSkip ev \<longrightarrow> columns = [])"
  proof (cases "length chunk = 0")
    case True
    then show ?thesis by (simp add: insertIntoPostgres_def)
  next
    case False
    from insertLoop_events [of e schema table columns chunk 0 0 tr]
    obtain new where "snd (insertLoop e schema table columns chunk 0 0 tr) = tr @ new"
      "\<forall>ev \<in> set new. \<not> isMismatchReport ev \<and> (isEmptyValuesSkip ev \<longrightarrow> columns = [])"
      by blast
    with False show ?thesis by (simp add: insertIntoPostgres_def)
  qed
qed


lemma sample_insert:
  "insertIntoPostgres (simulate sampleWorld) ''s'' ''t'' sampleColumns sampleRows [] =
     (Inr 3,
      [PgQuery (Insert ''s'' ''t'' [''ID'', ''NAME''] [[1, 2], [3, 4], [5, 6]]
                  [JNum 1, JStr ''a'', JNum 2, JStr ''b'', JNum 3, JStr ''c''])
         (Inr (PgResult [] 3))])"
  by code_simp

theorem mismatch_guard_unreachable_witness:
  "snd (insertIntoPostgres (simulate sampleWorld) ''s'' ''t'' sampleColumns sampleRows []) =
     [PgQuery (Insert ''s'' ''t'' [''ID'', ''NAME''] [[1, 2], [3, 4], [5, 6]]
                 [JNum 1, JStr ''a'', JNum 2, JStr ''b'', JNum 3, JStr ''c''])
        (Inr (PgResult [] 3))]
   \<and> \<not> isMismatchReport
         (PgQuery (Insert ''s'' ''t'' [''ID'', ''NAME''] [[1, 2], [3, 4], [5, 6]]
                     [JNum 1, JStr ''a'', JNum 2, JStr ''b'', JNum 3, JStr ''c''])
            (Inr (PgResult [] 3)))
   \<and> length (flatValues sampleColumns sampleRows) = 2 * 3"
proof -
  note inst = mismatch_guard_unreachable [of sampleColumns sampleRows "[]" "simulate sampleWorld"
                                            "''s''" "''t''" sampleRows]
  have len: "length sampleColumns = 2" "length sampleRows = 3"
    by (simp_all add: sampleColumns_def sampleRows_def)
  from inst have a: "length (flatValues sampleColumns sampleRows) = 2 * 3"
    unfolding len by (rule conjunct1)
  from inst have "\<forall>ev \<in> set (drop (length ([] :: event list))
                                 (snd (insertIntoPostgres (simulate sampleWorld) ''s'' ''t''
                                         sampleColumns sampleRows []))).
                    \<not> isMismatchReport ev \<and> (isEmptyValuesSkip ev \<longrightarrow> sampleColumns = [])"
    by (rule conjunct2)
  then have "\<forall>ev \<in> set (snd (insertIntoPostgres (simulate sampleWorld) ''s'' ''t''
                                      sampleColumns sampleRows [])).
                    \<not> isMismatchReport ev"
    unfolding list.size drop_0 by blast
  then have b: "\<not> isMismatchReport
         (PgQuery (Insert ''s'' ''t'' [''ID'', ''NAME''] [[1, 2], [3, 4], [5, 6]]
                     [JNum 1, JStr ''a'', JNum 2, JStr ''b'', JNum 3, JStr ''c''])
            (Inr (PgResult [] 3)))"
    unfolding sample_insert by simp
  from a b sample_insert show ?thesis by simp
qed


text \<open>
  Claim C6 as it is written fails for an empty column list: the one sub-batch of a chunk of
  three rows is skipped, and no \<open>INSERT\<close> is issued for it.
\<close>

theorem insertIntoPostgres_empty_columns_counterexample:
  "slices batchSize sampleRows = [sampleRows]
   \<and> insertIntoPostgres (simulate sampleWorld) ''s'' ''t'' [] sampleRows [] =
        (Inr 0, [Report ConsoleWarn ''Skipping insert as values array is empty''
                   [Text ''s'', Text ''t'']])"
  by code_simp

text \<open>
  Claim C6, as amended. With a column list that is not empty, \<open>insertIntoPostgres\<close> returns
  \<open>0\<close> for an empty chunk without a statement, and for any other chunk it does what the
  specification says of the consecutive sub-batches of at most 1000 rows: one \<open>INSERT\<close> for
  each, in order, with the values of each row in column order; when it returns a count, that
  count is the sum of the affected-row counts; when it raises, the error is the answer of
  the last \<open>INSERT\<close> it issued.
\<close>

theorem insertIntoPostgres_batches:
  assumes "columns \<noteq> []"
  shows "insertIntoPostgres e schema table columns [] tr =
           (Inr 0, tr @ [Report ConsoleWarn ''Skipping empty chunk for'' [Text schema, Text table]])
         \<and> (chunk \<noteq> [] \<longrightarrow>
              insertIntoPostgres e schema table columns chunk tr =
                insertBatches e schema table columns (slices batchSize chunk) 0 tr)
         \<and> batchSize = 1000
         \<and> concat (slices batchSize chunk) = chunk
         \<and> (\<forall>b \<in> set (slices batchSize chunk). b \<noteq> [] \<and> length b \<le> 1000)
         \<and> (\<forall>b. insertOf schema table columns b =
                   Insert schema table (map cname columns) (valuePlaceholders columns b)
                     (concat (map (\<lambda>r. map (\<lambda>col. getProp r (cname col)) columns) b)))
         \<and> (chunk \<noteq> [] \<longrightarrow>
              (\<exists>new. snd (insertIntoPostgres e schema table columns chunk tr) = tr @ new
                 \<and> (\<forall>n. fst (insertIntoPostgres e schema table columns chunk tr) = Inr n \<longrightarrow>
                        n = rowsInserted new
                        \<and> pgStatements new
                            = map (insertOf schema table columns) (slices batchSize chunk))
                 \<and> (\<forall>err. fst (insertIntoPostgres e schema table columns chunk tr) = Inl err \<longrightarrow>
                        (\<exists>k < length (slices batchSize chunk).
                           pgStatements new
                             = map (insertOf schema table columns)
                                   (take (Suc k) (slices batchSize chunk))
                           \<and> PgQuery (insertOf schema table columns (slices batchSize chunk ! k))
                                (Inl err) \<in> set new))))"
proof -
  have bs: "0 < batchSize" by (simp add: batchSize_def)
  have empty: "insertIntoPostgres e schema table columns [] tr =
           (Inr 0, tr @ [Report ConsoleWarn ''Skipping empty chunk for'' [Text schema, Text table]])"
    by (simp add: insertIntoPostgres_def)
  have refines: "insertIntoPostgres e schema table columns chunk tr =
                   insertBatches e schema table columns (slices batchSize chunk) 0 tr"
    if "chunk \<noteq> []"
    using that by (simp add: insertIntoPostgres_def insertLoop_refines [OF assms] slicesFrom_0)
  have size: "batchSize = 1000" by (simp add: batchSize_def)
  have cat: "concat (slices batchSize chunk) = chunk"
    by (rule slices_concat [OF bs])
  have bound: "\<forall>b \<in> set (slices batchSize chunk). b \<noteq> [] \<and> length b \<le> 1000"
    using slices_bounds [OF bs, of _ chunk] unfolding size by blast
  have params: "\<forall>b. insertOf schema table columns b =
                   Insert schema table (map cname columns) (valuePlaceholders columns b)
                     (concat (map (\<lambda>r. map (\<lambda>col. getProp r (cname col)) columns) b))"
    by (simp add: insertOf_def flatValues_def)
  have outcome: "\<exists>new. snd (insertIntoPostgres e schema table columns chunk tr) = tr @ new
                 \<and> (\<forall>n. fst (insertIntoPostgres e schema table columns chunk tr) = Inr n \<longrightarrow>
                        n = rowsInserted new
                        \<and> pgStatements new
                            = map (insertOf schema table columns) (slices batchSize chunk))
                 \<and> (\<forall>err. fst (insertIntoPostgres e schema table columns chunk tr) = Inl err \<longrightarrow>
                        (\<exists>k < length (slices batchSize chunk).
                           pgStatements new
                             = map (insertOf schema table columns)
                                   (take (Suc k) (slices batchSize chunk))
                           \<and> PgQuery (insertOf schema table columns (slices batchSize chunk ! k))
                                (Inl err) \<in> set new))"
    if "chunk \<noteq> []"
    unfolding refines [OF that]
    using insertBatches_outcome [of e schema table columns "slices batchSize chunk" 0 tr]
    by simp
  from empty refines size cat bound params outcome show ?thesis by blast
qed

theorem insertIntoPostgres_batches_witness:
  "sampleColumns \<noteq> [] \<and> sampleRows \<noteq> []
   \<and> insertIntoPostgres (simulate sampleWorld) ''s'' ''t'' sampleColumns sampleRows [] =
        insertBatches (simulate sampleWorld) ''s'' ''t'' sampleColumns
          (slices batchSize sampleRows) 0 []
   \<and> insertBatches (simulate sampleWorld) ''s'' ''t'' sampleColumns
        (slices batchSize sampleRows) 0 [] =
       (Inr 3,
        [PgQuery (Insert ''s'' ''t'' [''ID'', ''NAME''] [[1, 2], [3, 4], [5, 6]]
                    [JNum 1, JStr ''a'', JNum 2, JStr ''b'', JNum 3, JStr ''c''])
           (Inr (PgResult [] 3))])"
proof -
  have c: "sampleColumns \<noteq> []" by (simp add: sampleColumns_def)
  have r: "sampleRows \<noteq> []" by (simp add: sampleRows_def)
  from insertIntoPostgres_batches [OF c, of "simulate sampleWorld" "''s''" "''t''" "[]" sampleRows] r
  have eq: "insertIntoPostgres (simulate sampleWorld) ''s'' ''t'' sampleColumns sampleRows [] =
        insertBatches (simulate sampleWorld) ''s'' ''t'' sampleColumns
          (slices batchSize sampleRows) 0 []"
    by blast
  have run: "insertBatches (simulate sampleWorld) ''s'' ''t'' sampleColumns
        (slices batchSize sampleRows) 0 [] =
       (Inr 3,
        [PgQuery (Insert ''s'' ''t'' [''ID'', ''NAME''] [[1, 2], [3, 4], [5, 6]]
                    [JNum 1, JStr ''a'', JNum 2, JStr ''b'', JNum 3, JStr ''c''])
           (Inr (PgResult [] 3))])"
    by code_simp
  from c r eq run show ?thesis by (intro conjI)
qed

section \<open>Properties of the Replication Orchestrator\<close>

subsection \<open>Tables that are skipped\<close>

lemma getColumnMetadata_frame:
  "\<exists>new. snd (getColumnMetadata e schema table tr) = tr @ new
      \<and> (\<forall>ev \<in> set new. \<not> isCreateTable ev \<and> \<not> isTruncate ev \<and> \<not> isPageFetch ev
                           \<and> \<not> isInsert ev)"
  by (auto simp: getColumnMetadata_def db2Query_def Let_def split: sum.splits)

lemma getPrimaryKeys_frame:
  "\<exists>new. snd (getPrimaryKeys e schema table tr) = tr @ new
      \<and> (\<forall>ev \<in> set new. \<not> isCreateTable ev \<and> \<not> isTruncate ev \<and> \<not> isPageFetch ev
                           \<and> \<not> isInsert ev)"
  by (auto simp: getPrimaryKeys_def db2Query_def Let_def split: sum.splits)

lemma getDb2RowCount_frame:
  "\<exists>new. snd (getDb2RowCount e schema table tr) = tr @ new
      \<and> (\<forall>ev \<in> set new. \<not> isCreateTable ev \<and> \<not> isTruncate ev \<and> \<not> isPageFetch ev
                           \<and> \<not> isInsert ev)"
  by (auto simp: getDb2RowCount_def db2Query_def Let_def split: sum.splits)

lemma getPostgresRowCount_frame:
  "\<exists>new. snd (getPostgresRowCount e schema table tr) = tr @ new
      \<and> (\<forall>ev \<in> set new. \<not> isCreateTable ev \<and> \<not> isTruncate ev \<and> \<not> isPageFetch ev
                           \<and> \<not> isInsert ev)"
  by (auto simp: getPostgresRowCount_def pgQuery_def Let_def split: sum.splits list.splits)

lemma ensureTableExists_frame:
  "\<exists>new. snd (ensureTableExists e schema table columns keys tr) = tr @ new
      \<and> (\<forall>ev \<in> set new. \<not> isTruncate ev \<and> \<not> isPageFetch ev \<and> \<not> isInsert ev)"
  by (auto simp: ensureTableExists_def pgQuery_def Let_def split: sum.splits)

lemma getColumnMetadata_failure:
  "db2Respond e tr (SelectColumns (toUpperCase schema) (toUpperCase table)) = Inl err
   \<Longrightarrow> fst (getColumnMetadata e schema table tr) = []"
  by (simp add: getColumnMetadata_def db2Query_def Let_def)

lemma replicateTable_no_columns:
  assumes "fst (getColumnMetadata e (toUpperCase schema) (toUpperCase table)
                  (tr @ [Report ConsoleLog ''Replicating table'' [Text schema, Text table]])) = []"
  shows "replicateTable e cfg schema table tr =
           Some (Inr (),
                 snd (getPrimaryKeys e (toUpperCase schema) (toUpperCase table)
                        (snd (getColumnMetadata e (toUpperCase schema) (toUpperCase table)
                                (tr @ [Report ConsoleLog ''Replicating table''
                                         [Text schema, Text table]]))))
                 @ [Report ConsoleLog ''Skipping (no columns found)'' [Text schema, Text table]])"
    and "\<exists>new. snd (getPrimaryKeys e (toUpperCase schema) (toUpperCase table)
                      (snd (getColumnMetadata e (toUpperCase schema) (toUpperCase table)
                              (tr @ [Report ConsoleLog ''Replicating table''
                                       [Text schema, Text table]]))))
                = tr @ [Report ConsoleLog ''Replicating table'' [Text schema, Text table]] @ new
              \<and> (\<forall>ev \<in> set new. \<not> isCreateTable ev \<and> \<not> isPageFetch ev \<and> \<not> isInsert ev)"
proof -
  define tr0 where "tr0 = tr @ [Report ConsoleLog ''Replicating table'' [Text schema, Text table]]"
  obtain columns tr1 where gc:
    "getColumnMetadata e (toUpperCase schema) (toUpperCase table) tr0 = (columns, tr1)"
    by (cases "getColumnMetadata e (toUpperCase schema) (toUpperCase table) tr0")
  obtain keys tr2 where gk:
    "getPrimaryKeys e (toUpperCase schema) (toUpperCase table) tr1 = (keys, tr2)"
    by (cases "getPrimaryKeys e (toUpperCase schema) (toUpperCase table) tr1")
  from assms gc have empty: "columns = []" by (simp add: tr0_def)
  from getColumnMetadata_frame [of e "toUpperCase schema" "toUpperCase table" tr0] gc
  obtain n1 where n1: "tr1 = tr0 @ n1"
    "\<forall>ev \<in> set n1. \<not> isCreateTable ev \<and> \<not> isTruncate ev \<and> \<not> isPageFetch ev \<and> \<not> isInsert ev"
    by auto
  from getPrimaryKeys_frame [of e "toUpperCase schema" "toUpperCase table" tr1] gk
  obtain n2 where n2: "tr2 = tr1 @ n2"
    "\<forall>ev \<in> set n2. \<not> isCreateTable ev \<and> \<not> isTruncate ev \<and> \<not> isPageFetch ev \<and> \<not> isInsert ev"
    by auto
  show "replicateTable e cfg schema table tr =
           Some (Inr (),
                 snd (getPrimaryKeys e (toUpperCase schema) (toUpperCase table)
                        (snd (getColumnMetadata e (toUpperCase schema) (toUpperCase table)
                                (tr @ [Report ConsoleLog ''Replicating table''
                                         [Text schema, Text table]]))))
                 @ [Report ConsoleLog ''Skipping (no columns found)'' [Text schema, Text table]])"
    using gc gk empty by (simp add: replicateTable_def Let_def tr0_def)
  show "\<exists>new. snd (getPrimaryKeys e (toUpperCase schema) (toUpperCase table)
                      (snd (getColumnMetadata e (toUpperCase schema) (toUpperCase table)
                              (tr @ [Report ConsoleLog ''Replicating table''
                                       [Text schema, Text table]]))))
                = tr @ [Report ConsoleLog ''Replicating table'' [Text schema, Text table]] @ new
              \<and> (\<forall>ev \<in> set new. \<not> isCreateTable ev \<and> \<not> isPageFetch ev \<and> \<not> isInsert ev)"
    by (rule exI [of _ "n1 @ n2"]) (use gc gk n1 n2 in \<open>auto simp: tr0_def\<close>)
qed

text \<open>
  Claim C4. A table whose column lookup comes back empty is skipped. \<open>replicateTable\<close> returns
  without an exception after the two catalog lookups and the report that it skips the table:
  what it adds to the trace are its opening report, the events of the two lookups, none of
  which is a \<open>CREATE TABLE\<close>, a page fetch or an \<open>INSERT\<close>, and that report. The loop over the
  tables then goes on from there: alone, the skipped table ends the loop normally (and the
  run goes on to the views); followed by another table, the loop announces that table and
  runs \<open>replicateTable\<close> on it. A column lookup whose catalog query fails comes back empty.
\<close>

theorem no_columns_table_is_skipped:
  assumes "fst (getColumnMetadata e (toUpperCase schema) (toUpperCase table)
                  (tr @ [Report ConsoleLog ''Processing table'' [Text schema, Text table],
                         Report ConsoleLog ''Replicating table'' [Text schema, Text table]])) = []"
  shows "(let skipped =
            snd (getPrimaryKeys e (toUpperCase schema) (toUpperCase table)
                   (snd (getColumnMetadata e (toUpperCase schema) (toUpperCase table)
                           (tr @ [Report ConsoleLog ''Processing table'' [Text schema, Text table],
                                  Report ConsoleLog ''Replicating table''
                                    [Text schema, Text table]]))))
            @ [Report ConsoleLog ''Skipping (no columns found)'' [Text schema, Text table]]
          in replicateTable e cfg schema table
               (tr @ [Report ConsoleLog ''Processing table'' [Text schema, Text table]])
             = Some (Inr (), skipped)
           \<and> (\<exists>new. skipped =
                       tr @ [Report ConsoleLog ''Processing table'' [Text schema, Text table],
                             Report ConsoleLog ''Replicating table'' [Text schema, Text table]]
                       @ new
                       @ [Report ConsoleLog ''Skipping (no columns found)''
                            [Text schema, Text table]]
                  \<and> (\<forall>ev \<in> set new. \<not> isCreateTable ev \<and> \<not> isPageFetch ev
                                       \<and> \<not> isInsert ev))
           \<and> replicateTables e cfg [(schema, table)] tr = Some (Inr (), skipped)
           \<and> replicateTables e cfg ((schema, table) # rest) tr
               = replicateTables e cfg rest skipped
           \<and> replicateTables e cfg ((schema, table) # (nextSchema, nextTable) # rest) tr
               = (case replicateTable e cfg nextSchema nextTable
                         (skipped @ [Report ConsoleLog ''Processing table''
                                       [Text nextSchema, Text nextTable]]) of
                    None \<Rightarrow> None
                  | Some (Inl err, tr1) \<Rightarrow> Some (Inl err, tr1)
                  | Some (Inr u, tr1) \<Rightarrow> replicateTables e cfg rest tr1))
         \<and> (db2Respond e tr' (SelectColumns (toUpperCase db2Schema) (toUpperCase db2Table))
               = Inl failure
             \<longrightarrow> fst (getColumnMetadata e db2Schema db2Table tr') = [])"
proof
  let ?p = "Report ConsoleLog ''Processing table'' [Text schema, Text table]"
  let ?r = "Report ConsoleLog ''Replicating table'' [Text schema, Text table]"
  let ?k = "Report ConsoleLog ''Skipping (no columns found)'' [Text schema, Text table]"
  let ?skipped =
    "snd (getPrimaryKeys e (toUpperCase schema) (toUpperCase table)
            (snd (getColumnMetadata e (toUpperCase schema) (toUpperCase table)
                    ((tr @ [?p]) @ [?r])))) @ [?k]"
  from assms have h: "fst (getColumnMetadata e (toUpperCase schema) (toUpperCase table)
                             ((tr @ [?p]) @ [?r])) = []"
    by simp
  note run = replicateTable_no_columns(1) [OF h, of cfg]
  from replicateTable_no_columns(2) [OF h]
  obtain new where new:
    "snd (getPrimaryKeys e (toUpperCase schema) (toUpperCase table)
            (snd (getColumnMetadata e (toUpperCase schema) (toUpperCase table)
                    ((tr @ [?p]) @ [?r])))) = (tr @ [?p]) @ [?r] @ new"
    "\<forall>ev \<in> set new. \<not> isCreateTable ev \<and> \<not> isPageFetch ev \<and> \<not> isInsert ev"
    by blast
  have a: "replicateTable e cfg schema table (tr @ [?p]) = Some (Inr (), ?skipped)"
    by (rule run)
  have b: "\<exists>new. ?skipped = tr @ [?p, ?r] @ new @ [?k]
              \<and> (\<forall>ev \<in> set new. \<not> isCreateTable ev \<and> \<not> isPageFetch ev \<and> \<not> isInsert ev)"
    by (rule exI [of _ new]) (use new in simp)
  have c: "replicateTables e cfg [(schema, table)] tr = Some (Inr (), ?skipped)"
    by (simp add: a)
  have d: "replicateTables e cfg ((schema, table) # rest) tr = replicateTables e cfg rest ?skipped"
    by (simp add: a)
  have f: "replicateTables e cfg ((schema, table) # (nextSchema, nextTable) # rest) tr
               = (case replicateTable e cfg nextSchema nextTable
                         (?skipped @ [Report ConsoleLog ''Processing table''
                                        [Text nextSchema, Text nextTable]]) of
                    None \<Rightarrow> None
                  | Some (Inl err, tr1) \<Rightarrow> Some (Inl err, tr1)
                  | Some (Inr u, tr1) \<Rightarrow> replicateTables e cfg rest tr1)"
    by (simp add: a)
  from a b c d f
  show "let skipped =
            snd (getPrimaryKeys e (toUpperCase schema) (toUpperCase table)
                   (snd (getColumnMetadata e (toUpperCase schema) (toUpperCase table)
                           (tr @ [Report ConsoleLog ''Processing table'' [Text schema, Text table],
                                  Report ConsoleLog ''Replicating table''
                                    [Text schema, Text table]]))))
            @ [Report ConsoleLog ''Skipping (no columns found)'' [Text schema, Text table]]
          in replicateTable e cfg schema table
               (tr @ [Report ConsoleLog ''Processing table'' [Text schema, Text table]])
             = Some (Inr (), skipped)
           \<and> (\<exists>new. skipped =
                       tr @ [Report ConsoleLog ''Processing table'' [Text schema, Text table],
                             Report ConsoleLog ''Replicating table'' [Text schema, Text table]]
                       @ new
                       @ [Report ConsoleLog ''Skipping (no columns found)''
                            [Text schema, Text table]]
                  \<and> (\<forall>ev \<in> set new. \<not> isCreateTable ev \<and> \<not> isPageFetch ev
                                       \<and> \<not> isInsert ev))
           \<and> replicateTables e cfg [(schema, table)] tr = Some (Inr (), skipped)
           \<and> replicateTables e cfg ((schema, table) # rest) tr
               = replicateTables e cfg rest skipped
           \<and> replicateTables e cfg ((schema, table) # (nextSchema, nextTable) # rest) tr
               = (case replicateTable e cfg nextSchema nextTable
                         (skipped @ [Report ConsoleLog ''Processing table''
                                       [Text nextSchema, Text nextTable]]) of
                    None \<Rightarrow> None
                  | Some (Inl err, tr1) \<Rightarrow> Some (Inl err, tr1)
                  | Some (Inr u, tr1) \<Rightarrow> replicateTables e cfg rest tr1)"
    unfolding Let_def by (simp only: append_assoc append.simps) 
next
  show "db2Respond e tr' (SelectColumns (toUpperCase db2Schema) (toUpperCase db2Table)) = Inl failure
        \<longrightarrow> fst (getColumnMetadata e db2Schema db2Table tr') = []"
    by (simp add: getColumnMetadata_failure)
qed


theorem no_columns_table_is_skipped_witness:
  "fst (getColumnMetadata (simulate catalogFailingWorld) (toUpperCase ''s'') (toUpperCase ''a'')
          ([] @ [Report ConsoleLog ''Processing table'' [Text ''s'', Text ''a''],
                 Report ConsoleLog ''Replicating table'' [Text ''s'', Text ''a'']])) = []
   \<and> db2Respond (simulate catalogFailingWorld) []
         (SelectColumns (toUpperCase ''S'') (toUpperCase ''A''))
       = Inl (DbError ''catalog query failed'')
   \<and> fst (getColumnMetadata (simulate catalogFailingWorld) ''S'' ''A'' []) = []
   \<and> replicateTables (simulate catalogFailingWorld) twoTables [(''s'', ''a''), (''s'', ''b'')] []
       = Some (Inr (),
           [Report ConsoleLog ''Processing table'' [Text ''s'', Text ''a''],
            Report ConsoleLog ''Replicating table'' [Text ''s'', Text ''a''],
            Db2Query (SelectColumns ''S'' ''A'') (Inl (DbError ''catalog query failed'')),
            Report ConsoleError ''Failed to fetch column metadata for''
              [Text ''S'', Text ''A'', Text ''catalog query failed''],
            Db2Query (SelectKeyColumns ''S'' ''A'') (Inr [(3, [(''COLNAME'', JStr ''ID'')])]),
            Report ConsoleLog ''Skipping (no columns found)'' [Text ''s'', Text ''a''],
            Report ConsoleLog ''Processing table'' [Text ''s'', Text ''b''],
            Report ConsoleLog ''Replicating table'' [Text ''s'', Text ''b''],
            Db2Query (SelectColumns ''S'' ''B'') (Inr sampleColumnRows),
            Db2Query (SelectKeyColumns ''S'' ''B'') (Inr [(3, [(''COLNAME'', JStr ''ID'')])]),
            PgQuery (CreateTable ''s'' ''b'' [(''ID'', ''INTEGER''), (''NAME'', ''TEXT'')])
              (Inr (PgResult [] 0)),
            Report ConsoleLog ''Table ensured'' [Text ''s'', Text ''b''],
            Db2Query (SelectCountDb2 ''S'' ''B'') (Inr [(0, [(''COUNT'', JNum 3)])]),
            Report ConsoleLog ''Total rows for'' [Text ''s'', Text ''b'', Text ''3''],
            PgQuery (SelectCountPg ''s'' ''b'') (Inr (PgResult [(0, [(''count'', JStr ''3'')])] 1)),
            Report ConsoleLog ''Skipping (record counts match)'' [Text ''s'', Text ''b'']])"
proof -
  let ?e = "simulate catalogFailingWorld"
  let ?skipped =
    "snd (getPrimaryKeys ?e (toUpperCase ''s'') (toUpperCase ''a'')
            (snd (getColumnMetadata ?e (toUpperCase ''s'') (toUpperCase ''a'')
                    ([] @ [Report ConsoleLog ''Processing table'' [Text ''s'', Text ''a''],
                           Report ConsoleLog ''Replicating table'' [Text ''s'', Text ''a'']]))))
     @ [Report ConsoleLog ''Skipping (no columns found)'' [Text ''s'', Text ''a'']]"
  have h1: "fst (getColumnMetadata ?e (toUpperCase ''s'') (toUpperCase ''a'')
          ([] @ [Report ConsoleLog ''Processing table'' [Text ''s'', Text ''a''],
                 Report ConsoleLog ''Replicating table'' [Text ''s'', Text ''a'']])) = []"
    by code_simp
  have h2: "db2Respond ?e [] (SelectColumns (toUpperCase ''S'') (toUpperCase ''A''))
       = Inl (DbError ''catalog query failed'')"
    by code_simp
  note inst = no_columns_table_is_skipped [OF h1,
      where cfg = twoTables and rest = "[]" and nextSchema = "''s''" and nextTable = "''b''"
        and tr' = "[]" and db2Schema = "''S''" and db2Table = "''A''"
        and failure = "DbError ''catalog query failed''", unfolded Let_def]
  from inst h2 have h3: "fst (getColumnMetadata ?e ''S'' ''A'' []) = []"
    by blast
  from inst have next_table:
    "replicateTables ?e twoTables [(''s'', ''a''), (''s'', ''b'')] []
       = (case replicateTable ?e twoTables ''s'' ''b''
                 (?skipped @ [Report ConsoleLog ''Processing table'' [Text ''s'', Text ''b'']]) of
            None \<Rightarrow> None
          | Some (Inl err, tr1) \<Rightarrow> Some (Inl err, tr1)
          | Some (Inr u, tr1) \<Rightarrow> replicateTables ?e twoTables [] tr1)"
    by blast
  have run: "(case replicateTable ?e twoTables ''s'' ''b''
                 (?skipped @ [Report ConsoleLog ''Processing table'' [Text ''s'', Text ''b'']]) of
            None \<Rightarrow> None
          | Some (Inl err, tr1) \<Rightarrow> Some (Inl err, tr1)
          | Some (Inr u, tr1) \<Rightarrow> replicateTables ?e twoTables [] tr1)
       = Some (Inr (),
           [Report ConsoleLog ''Processing table'' [Text ''s'', Text ''a''],
            Report ConsoleLog ''Replicating table'' [Text ''s'', Text ''a''],
            Db2Query (SelectColumns ''S'' ''A'') (Inl (DbError ''catalog query failed'')),
            Report ConsoleError ''Failed to fetch column metadata for''
              [Text ''S'', Text ''A'', Text ''catalog query failed''],
            Db2Query (SelectKeyColumns ''S'' ''A'') (Inr [(3, [(''COLNAME'', JStr ''ID'')])]),
            Report ConsoleLog ''Skipping (no columns found)'' [Text ''s'', Text ''a''],
            Report ConsoleLog ''Processing table'' [Text ''s'', Text ''b''],
            Report ConsoleLog ''Replicating table'' [Text ''s'', Text ''b''],
            Db2Query (SelectColumns ''S'' ''B'') (Inr sampleColumnRows),
            Db2Query (SelectKeyColumns ''S'' ''B'') (Inr [(3, [(''COLNAME'', JStr ''ID'')])]),
            PgQuery (CreateTable ''s'' ''b'' [(''ID'', ''INTEGER''), (''NAME'', ''TEXT'')])
              (Inr (PgResult [] 0)),
            Report ConsoleLog ''Table ensured'' [Text ''s'', Text ''b''],
            Db2Query (SelectCountDb2 ''S'' ''B'') (Inr [(0, [(''COUNT'', JNum 3)])]),
            Report ConsoleLog ''Total rows for'' [Text ''s'', Text ''b'', Text ''3''],
            PgQuery (SelectCountPg ''s'' ''b'') (Inr (PgResult [(0, [(''count'', JStr ''3'')])] 1)),
            Report ConsoleLog ''Skipping (record counts match)'' [Text ''s'', Text ''b'']])"
    by code_simp
  have h4: "replicateTables ?e twoTables [(''s'', ''a''), (''s'', ''b'')] []
       = Some (Inr (),
           [Report ConsoleLog ''Processing table'' [Text ''s'', Text ''a''],
            Report ConsoleLog ''Replicating table'' [Text ''s'', Text ''a''],
            Db2Query (SelectColumns ''S'' ''A'') (Inl (DbError ''catalog query failed'')),
            Report ConsoleError ''Failed to fetch column metadata for''
              [Text ''S'', Text ''A'', Text ''catalog query failed''],
            Db2Query (SelectKeyColumns ''S'' ''A'') (Inr [(3, [(''COLNAME'', JStr ''ID'')])]),
            Report ConsoleLog ''Skipping (no columns found)'' [Text ''s'', Text ''a''],
            Report ConsoleLog ''Processing table'' [Text ''s'', Text ''b''],
            Report ConsoleLog ''Replicating table'' [Text ''s'', Text ''b''],
            Db2Query (SelectColumns ''S'' ''B'') (Inr sampleColumnRows),
            Db2Query (SelectKeyColumns ''S'' ''B'') (Inr [(3, [(''COLNAME'', JStr ''ID'')])]),
            PgQuery (CreateTable ''s'' ''b'' [(''ID'', ''INTEGER''), (''NAME'', ''TEXT'')])
              (Inr (PgResult [] 0)),
            Report ConsoleLog ''Table ensured'' [Text ''s'', Text ''b''],
            Db2Query (SelectCountDb2 ''S'' ''B'') (Inr [(0, [(''COUNT'', JNum 3)])]),
            Report ConsoleLog ''Total rows for'' [Text ''s'', Text ''b'', Text ''3''],
            PgQuery (SelectCountPg ''s'' ''b'') (Inr (PgResult [(0, [(''count'', JStr ''3'')])] 1)),
            Report ConsoleLog ''Skipping (record counts match)'' [Text ''s'', Text ''b'']])"
    by (rule trans [OF next_table run])
  from h1 h2 h3 h4 show ?thesis by (intro conjI)
qed

lemma truncateTable_frame:
  "\<exists>new. snd (truncateTable e schema table tr) = tr @ new"
  by (auto simp: truncateTable_def pgQuery_def Let_def split: sum.splits)

text \<open>
  Claim C3. With reset disabled, a table whose destination count equals its source count is
  skipped as in sync: \<open>replicateTable\<close> returns right after the comparison, and among the
  events of that table there is no \<open>TRUNCATE\<close>, no page fetch and no \<open>INSERT\<close>, so the
  rows of the destination table are what they were.
\<close>

theorem matching_counts_skip_table:
  assumes "\<not> reset cfg"
    and "getColumnMetadata e (toUpperCase schema) (toUpperCase table)
           (tr @ [Report ConsoleLog ''Replicating table'' [Text schema, Text table]])
         = (columns, tr1)"
    and "columns \<noteq> []"
    and "getPrimaryKeys e (toUpperCase schema) (toUpperCase table) tr1 = (primaryKeys, tr2)"
    and "ensureTableExists e schema table columns primaryKeys tr2 = (Inr (), tr3)"
    and "getDb2RowCount e (toUpperCase schema) (toUpperCase table) tr3 = (db2Count, tr4)"
    and "getPostgresRowCount e schema table
           (tr4 @ [if greaterThanZero db2Count
                   then Report ConsoleLog ''Total rows for''
                          [Text schema, Text table, Text (toString db2Count)]
                   else Report ConsoleLog ''Could not determine total rows for''
                          [Text schema, Text table]])
         = (postgresCount, tr6)"
    and "strictEq postgresCount db2Count"
  shows "replicateTable e cfg schema table tr =
           Some (Inr (), tr6 @ [Report ConsoleLog ''Skipping (record counts match)''
                                  [Text schema, Text table]])
         \<and> (\<exists>new. tr6 @ [Report ConsoleLog ''Skipping (record counts match)''
                            [Text schema, Text table]] = tr @ new
                 \<and> (\<forall>ev \<in> set new. \<not> isTruncate ev \<and> \<not> isPageFetch ev \<and> \<not> isInsert ev))"
proof
  show run: "replicateTable e cfg schema table tr =
           Some (Inr (), tr6 @ [Report ConsoleLog ''Skipping (record counts match)''
                                  [Text schema, Text table]])"
    using assms by (simp add: replicateTable_def Let_def)
  define tr0 where "tr0 = tr @ [Report ConsoleLog ''Replicating table'' [Text schema, Text table]]"
  define tr5 where "tr5 = tr4 @ [if greaterThanZero db2Count
                   then Report ConsoleLog ''Total rows for''
                          [Text schema, Text table, Text (toString db2Count)]
                   else Report ConsoleLog ''Could not determine total rows for''
                          [Text schema, Text table]]"
  from getColumnMetadata_frame [of e "toUpperCase schema" "toUpperCase table" tr0] assms(2)
  obtain n1 where n1: "tr1 = tr0 @ n1"
    "\<forall>ev \<in> set n1. \<not> isTruncate ev \<and> \<not> isPageFetch ev \<and> \<not> isInsert ev"
    by (auto simp: tr0_def)
  from getPrimaryKeys_frame [of e "toUpperCase schema" "toUpperCase table" tr1] assms(4)
  obtain n2 where n2: "tr2 = tr1 @ n2"
    "\<forall>ev \<in> set n2. \<not> isTruncate ev \<and> \<not> isPageFetch ev \<and> \<not> isInsert ev"
    by auto
  from ensureTableExists_frame [of e schema table columns primaryKeys tr2] assms(5)
  obtain n3 where n3: "tr3 = tr2 @ n3"
    "\<forall>ev \<in> set n3. \<not> isTruncate ev \<and> \<not> isPageFetch ev \<and> \<not> isInsert ev"
    by auto
  from getDb2RowCount_frame [of e "toUpperCase schema" "toUpperCase table" tr3] assms(6)
  obtain n4 where n4: "tr4 = tr3 @ n4"
    "\<forall>ev \<in> set n4. \<not> isTruncate ev \<and> \<not> isPageFetch ev \<and> \<not> isInsert ev"
    by auto
  from getPostgresRowCount_frame [of e schema table tr5] assms(7)
  obtain n6 where n6: "tr6 = tr5 @ n6"
    "\<forall>ev \<in> set n6. \<not> isTruncate ev \<and> \<not> isPageFetch ev \<and> \<not> isInsert ev"
    by (auto simp: tr5_def)
  show "\<exists>new. tr6 @ [Report ConsoleLog ''Skipping (record counts match)''
                            [Text schema, Text table]] = tr @ new
                 \<and> (\<forall>ev \<in> set new. \<not> isTruncate ev \<and> \<not> isPageFetch ev \<and> \<not> isInsert ev)"
    by (rule exI [of _ "[Report ConsoleLog ''Replicating table'' [Text schema, Text table]]
                        @ n1 @ n2 @ n3 @ n4
                        @ [if greaterThanZero db2Count
                           then Report ConsoleLog ''Total rows for''
                                  [Text schema, Text table, Text (toString db2Count)]
                           else Report ConsoleLog ''Could not determine total rows for''
                                  [Text schema, Text table]]
                        @ n6
                        @ [Report ConsoleLog ''Skipping (record counts match)''
                             [Text schema, Text table]]"])
       (use n1 n2 n3 n4 n6 in \<open>auto simp: tr0_def tr5_def\<close>)
qed


theorem matching_counts_skip_table_witness:
  "\<not> reset \<lparr>tables = [(''s'', ''t'')], views = [], chunkSize = 2, reset = False\<rparr>
   \<and> strictEq (JNum 3) (JNum 3)
   \<and> replicateTable (simulate sampleWorld)
         \<lparr>tables = [(''s'', ''t'')], views = [], chunkSize = 2, reset = False\<rparr> ''s'' ''t'' []
       = Some (Inr (),
           [Report ConsoleLog ''Replicating table'' [Text ''s'', Text ''t''],
            Db2Query (SelectColumns ''S'' ''T'') (Inr sampleColumnRows),
            Db2Query (SelectKeyColumns ''S'' ''T'') (Inr [(3, [(''COLNAME'', JStr ''ID'')])]),
            PgQuery (CreateTable ''s'' ''t'' [(''ID'', ''INTEGER''), (''NAME'', ''TEXT'')])
              (Inr (PgResult [] 0)),
            Report ConsoleLog ''Table ensured'' [Text ''s'', Text ''t''],
            Db2Query (SelectCountDb2 ''S'' ''T'') (Inr [(0, [(''COUNT'', JNum 3)])]),
            Report ConsoleLog ''Total rows for'' [Text ''s'', Text ''t'', Text ''3''],
            PgQuery (SelectCountPg ''s'' ''t'') (Inr (PgResult [(0, [(''count'', JStr ''3'')])] 1)),
            Report ConsoleLog ''Skipping (record counts match)'' [Text ''s'', Text ''t'']])"
proof -
  let ?e = "simulate sampleWorld"
  let ?cfg = "\<lparr>tables = [(''s'', ''t'')], views = [], chunkSize = 2, reset = False\<rparr>"
  let ?tr1 = "[Report ConsoleLog ''Replicating table'' [Text ''s'', Text ''t''],
               Db2Query (SelectColumns ''S'' ''T'') (Inr sampleColumnRows)]"
  let ?tr2 = "?tr1 @ [Db2Query (SelectKeyColumns ''S'' ''T'')
                        (Inr [(3, [(''COLNAME'', JStr ''ID'')])])]"
  let ?tr3 = "?tr2 @ [PgQuery (CreateTable ''s'' ''t'' [(''ID'', ''INTEGER''), (''NAME'', ''TEXT'')])
                        (Inr (PgResult [] 0)),
                      Report ConsoleLog ''Table ensured'' [Text ''s'', Text ''t'']]"
  let ?tr4 = "?tr3 @ [Db2Query (SelectCountDb2 ''S'' ''T'') (Inr [(0, [(''COUNT'', JNum 3)])])]"
  let ?tr6 = "?tr4 @ [Report ConsoleLog ''Total rows for'' [Text ''s'', Text ''t'', Text ''3''],
                      PgQuery (SelectCountPg ''s'' ''t'')
                        (Inr (PgResult [(0, [(''count'', JStr ''3'')])] 1))]"
  have h1: "\<not> reset ?cfg" by simp
  have h2: "getColumnMetadata ?e (toUpperCase ''s'') (toUpperCase ''t'')
              ([] @ [Report ConsoleLog ''Replicating table'' [Text ''s'', Text ''t'']])
            = (sampleColumns, ?tr1)"
    by code_simp
  have h3: "sampleColumns \<noteq> []" by (simp add: sampleColumns_def)
  have h4: "getPrimaryKeys ?e (toUpperCase ''s'') (toUpperCase ''t'') ?tr1 = ([''ID''], ?tr2)"
    by code_simp
  have h5: "ensureTableExists ?e ''s'' ''t'' sampleColumns [''ID''] ?tr2 = (Inr (), ?tr3)"
    by code_simp
  have h6: "getDb2RowCount ?e (toUpperCase ''s'') (toUpperCase ''t'') ?tr3 = (JNum 3, ?tr4)"
    by code_simp
  have h7: "getPostgresRowCount ?e ''s'' ''t''
              (?tr4 @ [if greaterThanZero (JNum 3)
                       then Report ConsoleLog ''Total rows for''
                              [Text ''s'', Text ''t'', Text (toString (JNum 3))]
                       else Report ConsoleLog ''Could not determine total rows for''
                              [Text ''s'', Text ''t'']])
            = (JNum 3, ?tr6)"
    by code_simp
  have h8: "strictEq (JNum 3) (JNum 3)" by (simp add: strictEq_def)
  from matching_counts_skip_table [OF h1 h2 h3 h4 h5 h6 h7 h8]
  have "replicateTable ?e ?cfg ''s'' ''t'' [] =
          Some (Inr (), ?tr6 @ [Report ConsoleLog ''Skipping (record counts match)''
                                  [Text ''s'', Text ''t'']])"
    by (rule conjunct1)
  then have run: "replicateTable ?e ?cfg ''s'' ''t'' [] =
     Some (Inr (),
           [Report ConsoleLog ''Replicating table'' [Text ''s'', Text ''t''],
            Db2Query (SelectColumns ''S'' ''T'') (Inr sampleColumnRows),
            Db2Query (SelectKeyColumns ''S'' ''T'') (Inr [(3, [(''COLNAME'', JStr ''ID'')])]),
            PgQuery (CreateTable ''s'' ''t'' [(''ID'', ''INTEGER''), (''NAME'', ''TEXT'')])
              (Inr (PgResult [] 0)),
            Report ConsoleLog ''Table ensured'' [Text ''s'', Text ''t''],
            Db2Query (SelectCountDb2 ''S'' ''T'') (Inr [(0, [(''COUNT'', JNum 3)])]),
            Report ConsoleLog ''Total rows for'' [Text ''s'', Text ''t'', Text ''3''],
            PgQuery (SelectCountPg ''s'' ''t'') (Inr (PgResult [(0, [(''count'', JStr ''3'')])] 1)),
            Report ConsoleLog ''Skipping (record counts match)'' [Text ''s'', Text ''t'']])"
    by (simp only: append.simps)
  from h1 h8 run show ?thesis by (intro conjI)
qed

subsection \<open>The transfer loop\<close>

lemma fetchedPages_append [simp]: "fetchedPages (a @ b) = fetchedPages a @ fetchedPages b"
  by (simp add: fetchedPages_def)

lemma fetchedPages_Nil [simp]: "fetchedPages [] = []"
  by (simp add: fetchedPages_def)

lemma fetchedPages_Cons [simp]: "fetchedPages (ev # tr) = pageOf ev @ fetchedPages tr"
  by (simp add: fetchedPages_def)

lemma pageFetches_append [simp]: "pageFetches (a @ b) = pageFetches a + pageFetches b"
  by (simp add: pageFetches_def)

lemma pageFetches_Nil [simp]: "pageFetches [] = 0"
  by (simp add: pageFetches_def)

lemma pageFetches_Cons [simp]:
  "pageFetches (ev # tr) = (if isPageFetch ev then 1 else 0) + pageFetches tr"
  by (simp add: pageFetches_def)

lemma getPrimaryKeys_no_page:
  "\<exists>new. snd (getPrimaryKeys e schema table tr) = tr @ new
      \<and> fetchedPages new = [] \<and> pageFetches new = 0 \<and> rowsInserted new = 0"
  by (auto simp: getPrimaryKeys_def db2Query_def Let_def split: sum.splits)

lemma fetchChunk_succeeds:
  assumes "\<forall>tr keys. db2Respond e tr (SelectPage schema table keys offset n) = Inr page"
  shows "\<exists>new. fetchChunk e schema table columns n offset tr = (page, tr @ new)
           \<and> fetchedPages new = [page] \<and> pageFetches new = 1 \<and> rowsInserted new = 0"
proof -
  obtain keys tr1 where gk:
    "getPrimaryKeys e (toUpperCase schema) (toUpperCase table) tr = (keys, tr1)"
    by (cases "getPrimaryKeys e (toUpperCase schema) (toUpperCase table) tr")
  from getPrimaryKeys_no_page [of e "toUpperCase schema" "toUpperCase table" tr] gk
  obtain n1 where n1: "tr1 = tr @ n1" "fetchedPages n1 = []" "pageFetches n1 = 0"
    "rowsInserted n1 = 0"
    by auto
  have run: "fetchChunk e schema table columns n offset tr =
               (page, tr1 @ [Db2Query (SelectPage schema table keys offset n) (Inr page)])"
    using gk assms by (simp add: fetchChunk_def db2Query_def Let_def)
  show ?thesis
    unfolding run
    by (rule exI [of _ "n1 @ [Db2Query (SelectPage schema table keys offset n) (Inr page)]"])
       (use n1 in simp)
qed

lemma length_valuePlaceholders: "length (valuePlaceholders columns batch) = length batch"
  by (simp add: valuePlaceholders_def)

lemma insertBatches_succeed:
  assumes "\<forall>tr names placeholders vals.
             \<exists>rs. pgRespond e tr (Insert schema table names placeholders vals)
                    = Inr (PgResult rs (length placeholders))"
  shows "\<exists>new. insertBatches e schema table columns bs acc tr
                  = (Inr (acc + length (concat bs)), tr @ new)
           \<and> fetchedPages new = [] \<and> pageFetches new = 0
           \<and> rowsInserted new = length (concat bs)"
proof (induction bs arbitrary: acc tr)
  case Nil
  show ?case by simp
next
  case (Cons b bs)
  define q where "q = Insert schema table (map cname columns) (valuePlaceholders columns b)
                        (flatValues columns b)"
  from assms obtain rs where rs: "pgRespond e tr q = Inr (PgResult rs (length b))"
    unfolding q_def using length_valuePlaceholders [of columns b] by metis
  define tr1 where "tr1 = tr @ [PgQuery q (Inr (PgResult rs (length b)))]"
  have run: "insertBatches e schema table columns (b # bs) acc tr =
               insertBatches e schema table columns bs (acc + length b) tr1"
    using rs by (simp add: q_def [symmetric] Let_def tr1_def)
  from Cons.IH [of "acc + length b" tr1] obtain new where new:
    "insertBatches e schema table columns bs (acc + length b) tr1
       = (Inr (acc + length b + length (concat bs)), tr1 @ new)"
    "fetchedPages new = []" "pageFetches new = 0" "rowsInserted new = length (concat bs)"
    by blast
  show ?case
    unfolding run new(1)
    by (rule exI [of _ "PgQuery q (Inr (PgResult rs (length b))) # new"])
       (use new in \<open>simp add: tr1_def q_def\<close>)
qed


lemma insertIntoPostgres_succeeds:
  assumes "\<forall>tr names placeholders vals.
             \<exists>rs. pgRespond e tr (Insert schema table names placeholders vals)
                    = Inr (PgResult rs (length placeholders))"
    and "columns \<noteq> []" and "chunk \<noteq> []"
  shows "\<exists>new. insertIntoPostgres e schema table columns chunk tr
                  = (Inr (length chunk), tr @ new)
           \<and> fetchedPages new = [] \<and> pageFetches new = 0
           \<and> rowsInserted new = length chunk"
proof -
  have bs: "0 < batchSize" by (simp add: batchSize_def)
  have "insertIntoPostgres e schema table columns chunk tr =
          insertBatches e schema table columns (slices batchSize chunk) 0 tr"
    using assms(3) by (simp add: insertIntoPostgres_def insertLoop_refines [OF assms(2)] slicesFrom_0)
  with insertBatches_succeed [OF assms(1), of columns "slices batchSize chunk" 0 tr]
  show ?thesis by (simp add: slices_concat [OF bs])
qed

lemma transferLoop_from:
  assumes C: "0 < C" and cols: "columns \<noteq> []"
    and fetch: "\<forall>tr keys offset.
                  db2Respond e tr (SelectPage (toUpperCase schema) (toUpperCase table) keys offset C)
                    = Inr (take C (drop offset source))"
    and ins: "\<forall>tr names placeholders vals.
                \<exists>rs. pgRespond e tr (Insert schema table names placeholders vals)
                       = Inr (PgResult rs (length placeholders))"
  shows "\<exists>new. transferLoop e schema table columns C db2Count offset fetched tr
                  = Some (fetched + (length source - offset), tr @ new)
           \<and> fetchedPages new = slicesFrom C offset source @ [[]]
           \<and> pageFetches new = length (slicesFrom C offset source) + 1
           \<and> rowsInserted new = length source - offset"
proof (induction "length source - offset" arbitrary: offset fetched tr rule: less_induct)
  case less
  define page where "page = take C (drop offset source)"
  have "\<forall>tr keys. db2Respond e tr
          (SelectPage (toUpperCase schema) (toUpperCase table) keys offset C) = Inr page"
    using fetch by (simp add: page_def)
  from fetchChunk_succeeds [OF this, of columns tr]
  obtain n1 where n1:
    "fetchChunk e (toUpperCase schema) (toUpperCase table) columns C offset tr = (page, tr @ n1)"
    "fetchedPages n1 = [page]" "pageFetches n1 = 1" "rowsInserted n1 = 0"
    by blast
  show ?case
  proof (cases "offset < length source")
    case False
    then have empty: "page = []" by (simp add: page_def)
    have fin: "slicesFrom C offset source = []"
      using False C by (simp add: slicesFrom_done)
    have run: "transferLoop e schema table columns C db2Count offset fetched tr
                 = Some (fetched, tr @ n1)"
      by (subst transferLoop.simps) (simp add: n1(1) empty)
    show ?thesis
      unfolding run
      by (rule exI [of _ n1]) (use n1 empty fin False in simp)
  next
    case True
    then have ne: "page \<noteq> []" using C by (simp add: page_def)
    have lenp: "length page + (length source - (offset + C)) = length source - offset"
      using True by (simp add: page_def min_def)
    from insertIntoPostgres_succeeds [OF ins cols ne, of "tr @ n1"]
    obtain n2 where n2:
      "insertIntoPostgres e schema table columns page (tr @ n1)
         = (Inr (length page), (tr @ n1) @ n2)"
      "fetchedPages n2 = []" "pageFetches n2 = 0" "rowsInserted n2 = length page"
      by blast
    define progress where "progress =
       (if greaterThanZero db2Count
        then Report SpinnerText ''Fetched & inserted records (percent)''
               [Text (natToString (fetched + length page)), Text (toString db2Count)]
        else Report SpinnerText ''Fetched & inserted records (total unknown)''
               [Text (natToString (fetched + length page))])"
    have quiet: "pageOf progress = []" "\<not> isPageFetch progress" "insertedRows progress = 0"
      by (simp_all add: progress_def)
    have run: "transferLoop e schema table columns C db2Count offset fetched tr
                 = transferLoop e schema table columns C db2Count (offset + C)
                     (fetched + length page) (((tr @ n1) @ n2) @ [progress])"
      by (subst transferLoop.simps) (simp add: n1(1) n2(1) ne progress_def)
    have lt: "length source - (offset + C) < length source - offset"
      using True C by simp
    from less.hyps [OF lt, of "fetched + length page" "((tr @ n1) @ n2) @ [progress]"]
    obtain n3 where n3:
      "transferLoop e schema table columns C db2Count (offset + C) (fetched + length page)
         (((tr @ n1) @ n2) @ [progress])
       = Some (fetched + length page + (length source - (offset + C)),
               (((tr @ n1) @ n2) @ [progress]) @ n3)"
      "fetchedPages n3 = slicesFrom C (offset + C) source @ [[]]"
      "pageFetches n3 = length (slicesFrom C (offset + C) source) + 1"
      "rowsInserted n3 = length source - (offset + C)"
      by blast
    have step: "slicesFrom C offset source = page # slicesFrom C (offset + C) source"
      unfolding page_def by (rule slicesFrom_step [OF C True])
    show ?thesis
      unfolding run n3(1)
      by (rule exI [of _ "n1 @ n2 @ [progress] @ n3"])
         (use n1 n2 n3 quiet step lenp in \<open>simp add: add.assoc\<close>)
  qed
qed

text \<open>
  Claim C2, as amended. For a source table of \<open>N\<close> rows and a positive chunk size \<open>C\<close>,
  when every page fetch answers with the rows of its page and every \<open>INSERT\<close> inserts the
  rows it was given, the transfer loop returns after exactly \<open>ceil(N/C) + 1\<close> page fetches:
  the first \<open>ceil(N/C)\<close> hand out the consecutive slices of the table, the last of them
  possibly short, and one more comes back empty and ends the loop; the rows the loop counted
  and the rows the destination inserted are both \<open>N\<close>.
\<close>

theorem transferLoop_fetches:
  assumes "0 < C" and "columns \<noteq> []"
    and "\<forall>tr keys offset.
           db2Respond e tr (SelectPage (toUpperCase schema) (toUpperCase table) keys offset C)
             = Inr (take C (drop offset source))"
    and "\<forall>tr names placeholders vals.
           \<exists>rs. pgRespond e tr (Insert schema table names placeholders vals)
                  = Inr (PgResult rs (length placeholders))"
  shows "\<exists>new. transferLoop e schema table columns C db2Count 0 0 tr
                  = Some (length source, tr @ new)
           \<and> pageFetches new = (length source + C - 1) div C + 1
           \<and> fetchedPages new = slices C source @ [[]]
           \<and> rowsInserted new = length source"
proof -
  from transferLoop_from [OF assms, of db2Count 0 0 tr]
  obtain new where new:
    "transferLoop e schema table columns C db2Count 0 0 tr = Some (0 + (length source - 0), tr @ new)"
    "fetchedPages new = slicesFrom C 0 source @ [[]]"
    "pageFetches new = length (slicesFrom C 0 source) + 1"
    "rowsInserted new = length source - 0"
    by blast
  have len: "length (slices C source) = (length source + C - 1) div C"
    by (simp add: slices_def)
  show ?thesis
    by (rule exI [of _ new]) (use new len in \<open>simp add: slicesFrom_0\<close>)
qed


text \<open>
  Claim C2 as it is written fails: for a source table of three rows and a chunk size of two,
  \<open>ceil(3/2)\<close> is two, and the loop issues three page fetches (the third one comes back
  empty and ends it).
\<close>

theorem transferLoop_fetches_counterexample:
  "length sampleRows = 3
   \<and> (length sampleRows + 2 - 1) div 2 = 2
   \<and> transferSummary
         (transferLoop (simulate sampleWorld) ''s'' ''t'' sampleColumns 2 (JNum 3) 0 0 [])
       = Some (3, 3, 3)"
  by code_simp

theorem transferLoop_fetches_witness:
  "0 < (2::nat) \<and> sampleColumns \<noteq> []
   \<and> (\<forall>tr keys offset.
         db2Respond (simulate sampleWorld) tr
           (SelectPage (toUpperCase ''s'') (toUpperCase ''t'') keys offset 2)
         = Inr (take 2 (drop offset sampleRows)))
   \<and> (\<forall>tr names placeholders vals.
         pgRespond (simulate sampleWorld) tr (Insert ''s'' ''t'' names placeholders vals)
         = Inr (PgResult [] (length placeholders)))
   \<and> transferSummary
         (transferLoop (simulate sampleWorld) ''s'' ''t'' sampleColumns 2 (JNum 3) 0 0 [])
       = Some (length sampleRows, (length sampleRows + 2 - 1) div 2 + 1, length sampleRows)"
proof -
  have h1: "0 < (2::nat)" by simp
  have h2: "sampleColumns \<noteq> []" by (simp add: sampleColumns_def)
  have h3: "\<forall>tr keys offset.
         db2Respond (simulate sampleWorld) tr
           (SelectPage (toUpperCase ''s'') (toUpperCase ''t'') keys offset 2)
         = Inr (take 2 (drop offset sampleRows))"
    by (simp add: simulate_def sampleWorld_def)
  have h4: "\<forall>tr names placeholders vals.
         pgRespond (simulate sampleWorld) tr (Insert ''s'' ''t'' names placeholders vals)
         = Inr (PgResult [] (length placeholders))"
    by (simp add: simulate_def sampleWorld_def)
  from h4 have h4': "\<forall>tr names placeholders vals.
         \<exists>rs. pgRespond (simulate sampleWorld) tr (Insert ''s'' ''t'' names placeholders vals)
                = Inr (PgResult rs (length placeholders))"
    by blast
  from transferLoop_fetches [OF h1 h2 h3 h4', of "JNum 3" "[]"]
  obtain new where new:
    "transferLoop (simulate sampleWorld) ''s'' ''t'' sampleColumns 2 (JNum 3) 0 0 []
       = Some (length sampleRows, [] @ new)"
    "pageFetches new = (length sampleRows + 2 - 1) div 2 + 1"
    "rowsInserted new = length sampleRows"
    by blast
  have h5: "transferSummary
         (transferLoop (simulate sampleWorld) ''s'' ''t'' sampleColumns 2 (JNum 3) 0 0 [])
       = Some (length sampleRows, (length sampleRows + 2 - 1) div 2 + 1, length sampleRows)"
    unfolding new(1) by (simp add: transferSummary_def new(2,3))
  from h1 h2 h3 h4 h5 show ?thesis by (intro conjI)
qed

subsection \<open>A table that fails\<close>

text \<open>
  Whatever the databases are: an exception of \<open>ensureTableExists\<close> leaves \<open>replicateTable\<close>
  as it came, and an exception that leaves \<open>replicateTable\<close> ends the loop over the tables
  with the tables that remain untouched.
\<close>

lemma replicateTable_rethrows_ensureTableExists:
  assumes "getColumnMetadata e (toUpperCase schema) (toUpperCase table)
             (tr @ [Report ConsoleLog ''Replicating table'' [Text schema, Text table]])
           = (columns, tr1)"
    and "columns \<noteq> []"
    and "getPrimaryKeys e (toUpperCase schema) (toUpperCase table) tr1 = (primaryKeys, tr2)"
    and "ensureTableExists e schema table columns primaryKeys tr2 = (Inl err, tr3)"
  shows "replicateTable e cfg schema table tr = Some (Inl err, tr3)"
  using assms by (simp add: replicateTable_def Let_def)

lemma replicateTables_stop_at_exception:
  assumes "replicateTable e cfg schema table
             (tr @ [Report ConsoleLog ''Processing table'' [Text schema, Text table]])
           = Some (Inl err, tr')"
  shows "replicateTables e cfg ((schema, table) # rest) tr = Some (Inl err, tr')"
  using assms by simp

text \<open>
  Claim C1. The claim is that an exception while a table is processed is caught for that
  table and the run goes on. In the code only the body of the transfer loop is in a \<open>try\<close>:
  \<open>replicateAll\<close> calls \<open>replicateTable\<close> unguarded, and \<open>replicateTable\<close> calls
  \<open>ensureTableExists\<close> and \<open>truncateTable\<close> unguarded. With two tables and a view
  configured, a destination that refuses the \<open>CREATE TABLE\<close> of the first table, or its
  \<open>TRUNCATE\<close>, ends the run with that error: the second table and the view are never
  touched. A destination that refuses the \<open>INSERT\<close>s does not end the run.
\<close>

theorem table_failure_aborts_run:
  "replicateAll (simulate tableFailingWorld) twoTables =
     Some (Inl (DbError ''statement failed''),
       [Report ConsoleLog ''Starting replication process...'' [],
        Report ConsoleLog ''Connecting to DB2'' [],
        Report ConsoleLog ''Connected to DB2'' [],
        PgQuery (CreateSchema ''s'') (Inr (PgResult [] 0)),
        Report ConsoleLog ''Schema ensured'' [Text ''s''],
        Report ConsoleLog ''Starting table replication...'' [],
        Report ConsoleLog ''Processing table'' [Text ''s'', Text ''a''],
        Report ConsoleLog ''Replicating table'' [Text ''s'', Text ''a''],
        Db2Query (SelectColumns ''S'' ''A'') (Inr sampleColumnRows),
        Db2Query (SelectKeyColumns ''S'' ''A'') (Inr [(3, [(''COLNAME'', JStr ''ID'')])]),
        PgQuery (CreateTable ''s'' ''a'' [(''ID'', ''INTEGER''), (''NAME'', ''TEXT'')])
          (Inl (DbError ''statement failed'')),
        Report ConsoleError ''Failed to ensure table''
          [Text ''s'', Text ''a'', Text ''statement failed'']])
   \<and> replicateAll (simulate truncateFailingWorld) twoTables =
     Some (Inl (DbError ''statement failed''),
       [Report ConsoleLog ''Starting replication process...'' [],
        Report ConsoleLog ''Connecting to DB2'' [],
        Report ConsoleLog ''Connected to DB2'' [],
        PgQuery (CreateSchema ''s'') (Inr (PgResult [] 0)),
        Report ConsoleLog ''Schema ensured'' [Text ''s''],
        Report ConsoleLog ''Starting table replication...'' [],
        Report ConsoleLog ''Processing table'' [Text ''s'', Text ''a''],
        Report ConsoleLog ''Replicating table'' [Text ''s'', Text ''a''],
        Db2Query (SelectColumns ''S'' ''A'') (Inr sampleColumnRows),
        Db2Query (SelectKeyColumns ''S'' ''A'') (Inr [(3, [(''COLNAME'', JStr ''ID'')])]),
        PgQuery (CreateTable ''s'' ''a'' [(''ID'', ''INTEGER''), (''NAME'', ''TEXT'')])
          (Inr (PgResult [] 0)),
        Report ConsoleLog ''Table ensured'' [Text ''s'', Text ''a''],
        Db2Query (SelectCountDb2 ''S'' ''A'') (Inr [(0, [(''COUNT'', JNum 3)])]),
        Report ConsoleLog ''Total rows for'' [Text ''s'', Text ''a'', Text ''3''],
        PgQuery (SelectCountPg ''s'' ''a'') (Inr (PgResult [(0, [(''count'', JStr ''0'')])] 1)),
        Report ConsoleLog ''Record counts differ. Truncating table.'' [Text ''s'', Text ''a''],
        PgQuery (Truncate ''s'' ''a'') (Inl (DbError ''statement failed'')),
        Report ConsoleError ''Failed to truncate table''
          [Text ''s'', Text ''a'', Text ''statement failed'']])
   \<and> map_option fst (replicateAll (simulate insertFailingWorld) twoTables) = Some (Inr ())"
  by code_simp

section \<open>Properties of the Source Accessor\<close>

text \<open>
  Claim C5. The claim is that \<open>getViewDefinition\<close> returns what follows the \<open>AS\<close> keyword
  of the view text. The code looks for the first place where the two letters occur, also
  inside a name: for the text \<open>CREATE VIEW S.BASE AS SELECT 1\<close> it returns
  \<open>E AS SELECT 1\<close>, the rest of the view's name and the keyword included, where the text
  after the keyword is \<open>SELECT 1\<close>.
\<close>

theorem getViewDefinition_splits_inside_name:
  "selectStatement ''CREATE VIEW S.BASE AS SELECT 1'' = ''E AS SELECT 1''
   \<and> getViewDefinition (simulate sampleWorld) ''S'' ''BASE'' [] =
       (''E AS SELECT 1'',
        [Report ConsoleLog ''DB2 getViewDefinition Query'' [Db2Stmt (SelectViewText ''S'' ''BASE'')],
         Db2Query (SelectViewText ''S'' ''BASE'')
           (Inr [(4, [(''TEXT'', JStr ''CREATE VIEW S.BASE AS SELECT 1'')])])])"
  by code_simp

end
